theory Spec2Isabelle
  imports Complex_Main "HOL-Library.Word" "HOL-Library.Sublist" "HOL-Library.AList"
begin

section \<open>Library functions used by the program\<close>

text \<open>
  Go's \<open>float64\<close> amounts and scores are modelled by rationals: the finite values only,
  with exact arithmetic (rounding, NaN and the infinities are outside the model).
  A \<open>time.Time\<close> is the number of nanoseconds since the Unix epoch, a
  \<open>time.Duration\<close> a number of nanoseconds. Every reading of the clock within one call
  is the instant \<open>now\<close> passed to the model of the call.
\<close>

type_synonym float64 = rat
type_synonym time = int
type_synonym byte = "8 word"

definition minDuration :: int where
  "minDuration = - (2 ^ 63)"

definition maxDuration :: int where
  "maxDuration = 2 ^ 63 - 1"

definition Sub :: "time \<Rightarrow> time \<Rightarrow> int" where
  \<comment> \<open>\<open>t.Sub(u)\<close>: the difference, saturated to the range of a Duration\<close>
  "Sub t u = (if t - u < minDuration then minDuration
              else if maxDuration < t - u then maxDuration else t - u)"

definition Since :: "time \<Rightarrow> time \<Rightarrow> int" where
  \<comment> \<open>\<open>time.Since(t)\<close> read at the instant \<open>now\<close>\<close>
  "Since now t = Sub now t"

definition Hours :: "int \<Rightarrow> float64" where
  \<comment> \<open>\<open>Duration.Hours()\<close>: whole hours plus the remaining nanoseconds over 3.6e12\<close>
  "Hours d = of_int d / 3600000000000"

definition Unix :: "time \<Rightarrow> int" where
  \<comment> \<open>\<open>Time.Unix()\<close>: whole seconds since the epoch, rounded down\<close>
  "Unix t = t div 1000000000"

definition zeroTime :: time where
  \<comment> \<open>the zero \<open>time.Time\<close>, January 1 of year 1, for which \<open>IsZero\<close> holds\<close>
  "zeroTime = - 62135596800000000000"

definition IsZero :: "time \<Rightarrow> bool" where
  "IsZero t = (t = zeroTime)"

subsection \<open>Hexadecimal and decimal rendering\<close>

definition hexdigit :: "nat \<Rightarrow> char" where
  "hexdigit n = ''0123456789abcdef'' ! (n mod 16)"

definition hex_byte :: "byte \<Rightarrow> string" where
  "hex_byte b = [hexdigit (unat b div 16), hexdigit (unat b mod 16)]"

definition EncodeToString :: "byte list \<Rightarrow> string" where
  \<comment> \<open>\<open>hex.EncodeToString\<close>: two lowercase digits for each byte\<close>
  "EncodeToString bs = concat (map hex_byte bs)"

definition digit_char :: "nat \<Rightarrow> char" where
  "digit_char n = char_of (48 + n mod 10)"

fun digits :: "nat \<Rightarrow> string" where
  "digits n = (if n < 10 then [digit_char n] else digits (n div 10) @ [digit_char (n mod 10)])"

declare digits.simps [simp del]

definition fmt_d :: "int \<Rightarrow> string" where
  \<comment> \<open>the verb \<open>%d\<close> of \<open>fmt.Sprintf\<close> on an integer\<close>
  "fmt_d i = (if i < 0 then CHR ''-'' # digits (nat (- i)) else digits (nat i))"

definition fmt_t :: "bool \<Rightarrow> string" where
  \<comment> \<open>the verb \<open>%t\<close>\<close>
  "fmt_t b = (if b then ''true'' else ''false'')"

subsection \<open>Strings\<close>

definition HasPrefix :: "string \<Rightarrow> string \<Rightarrow> bool" where
  "HasPrefix s p = prefix p s"

definition Repeat :: "string \<Rightarrow> nat \<Rightarrow> string" where
  "Repeat s n = concat (replicate n s)"

definition Contains :: "string \<Rightarrow> string \<Rightarrow> bool" where
  "Contains s substr = sublist substr s"

definition lower_char :: "char \<Rightarrow> char" where
  "lower_char c = (if 65 \<le> (of_char c :: nat) \<and> (of_char c :: nat) \<le> 90
                   then char_of ((of_char c :: nat) + 32) else c)"

definition upper_char :: "char \<Rightarrow> char" where
  "upper_char c = (if 97 \<le> (of_char c :: nat) \<and> (of_char c :: nat) \<le> 122
                   then char_of ((of_char c :: nat) - 32) else c)"

definition ToLower :: "string \<Rightarrow> string" where
  \<comment> \<open>\<open>strings.ToLower\<close> on ASCII text, which is all the program applies it to\<close>
  "ToLower s = map lower_char s"

definition ToUpper :: "string \<Rightarrow> string" where
  "ToUpper s = map upper_char s"

subsection \<open>Values held in \<open>interface{}\<close> and the functions taken as given\<close>

text \<open>
  A \<open>map[string]interface{}\<close> and what it holds is a tree of values
  (\<open>JStrings\<close> is a \<open>[]string\<close>, \<open>JArr\<close> a slice of anything else). SHA-256, the
  JSON and base64 encoders, the floating-point verbs of \<open>fmt\<close> and the calendar are
  not modelled: every definition that calls one takes them in a record \<open>L\<close>, and a
  theorem holds for whatever functions the record holds. \<open>Marshal\<close> is total here
  (it fails in Go on NaN and the infinities only, which are outside the model).
\<close>

datatype json = JNull | JBool bool | JNum float64 | JInt int | JStr string | JTime time
  | JStrings "string list" | JArr "json list" | JObj "(string \<times> json) list"

record lib =
  Sum256 :: "string \<Rightarrow> byte list"
  Marshal :: "json \<Rightarrow> string"
  Sprintf_f :: "nat \<Rightarrow> float64 \<Rightarrow> string"
  Sprintf_v :: "json \<Rightarrow> string"
  StdEncoding :: "string \<Rightarrow> string"
  Year :: "time \<Rightarrow> int"

definition sha256_hex :: "lib \<Rightarrow> string \<Rightarrow> string" where
  \<comment> \<open>\<open>hex.EncodeToString(hash[:])\<close> for \<open>hash := sha256.Sum256([]byte(s))\<close>\<close>
  "sha256_hex L s = EncodeToString (Sum256 L s)"

definition UnixNano :: "time \<Rightarrow> int" where
  "UnixNano t = t"

text \<open>
  A call either does not return (\<open>None\<close>: the mining loop runs forever), panics, or
  returns a value.
\<close>

datatype 'a run = Panics string | Returns 'a

subsection \<open>Regular expressions of the program\<close>

text \<open>
  Both regular expressions of the program are anchored sequences of character classes, so
  a string matches when it has one byte per class, each in its class.
\<close>

definition is_digit :: "char \<Rightarrow> bool" where
  "is_digit c = (48 \<le> (of_char c :: nat) \<and> (of_char c :: nat) \<le> 57)"

definition is_upper :: "char \<Rightarrow> bool" where
  "is_upper c = (65 \<le> (of_char c :: nat) \<and> (of_char c :: nat) \<le> 90)"

definition is_digit19 :: "char \<Rightarrow> bool" where
  "is_digit19 c = (49 \<le> (of_char c :: nat) \<and> (of_char c :: nat) \<le> 57)"

definition is_hex_lower :: "char \<Rightarrow> bool" where
  "is_hex_lower c = (is_digit c \<or> (97 \<le> (of_char c :: nat) \<and> (of_char c :: nat) \<le> 102))"

definition MatchString :: "(char \<Rightarrow> bool) list \<Rightarrow> string \<Rightarrow> bool" where
  "MatchString classes s = list_all2 (\<lambda>p c. p c) classes s"

definition gstinRegex :: "(char \<Rightarrow> bool) list" where
  \<comment> \<open>\<open>^[0-9]{2}[A-Z]{5}[0-9]{4}[A-Z]{1}[1-9A-Z]{1}Z[0-9A-Z]{1}$\<close>\<close>
  "gstinRegex = replicate 2 is_digit @ replicate 5 is_upper @ replicate 4 is_digit
     @ [is_upper] @ [\<lambda>c. is_digit19 c \<or> is_upper c] @ [\<lambda>c. c = CHR ''Z'']
     @ [\<lambda>c. is_digit c \<or> is_upper c]"

definition hexPattern :: "(char \<Rightarrow> bool) list" where
  \<comment> \<open>\<open>^[a-f0-9]{64}$\<close>\<close>
  "hexPattern = replicate 64 is_hex_lower"

section \<open>Package blockchain\<close>

record Validator =
  ValidatorID :: string
  v_Signature :: string
  ValidationType :: string
  v_Timestamp :: time

text \<open>
  \<open>Index\<close> and \<open>Nonce\<close> are Go \<open>int\<close>s. The nonce is the one the mining loop
  increments, so it is a 64-bit word printed as a signed number; the index is only ever
  assigned the length of a chain.
\<close>

record Block =
  Index :: int
  b_Timestamp :: time
  Data :: json
  PreviousHash :: string
  BlockType :: string
  Hash :: string
  Nonce :: "64 word"
  Validated :: bool
  Validators :: "Validator list"
  MerkleRoot :: string

definition hash_record :: "lib \<Rightarrow> Block \<Rightarrow> string" where
  \<comment> \<open>\<open>fmt.Sprintf("%d%s%d%s%d%s%s", ...)\<close> in \<open>calculateHash\<close>\<close>
  "hash_record L b =
     fmt_d (Index b) @ PreviousHash b @ fmt_d (UnixNano (b_Timestamp b)) @ Marshal L (Data b)
       @ fmt_d (sint (Nonce b)) @ BlockType b @ MerkleRoot b"

definition calculateHash :: "lib \<Rightarrow> Block \<Rightarrow> string" where
  "calculateHash L b = sha256_hex L (hash_record L b)"

definition calculateMerkleRoot :: "lib \<Rightarrow> Block \<Rightarrow> string" where
  "calculateMerkleRoot L b = sha256_hex L (Marshal L (Data b))"

definition NewBlock :: "lib \<Rightarrow> time \<Rightarrow> int \<Rightarrow> time \<Rightarrow> json \<Rightarrow> string \<Rightarrow> string \<Rightarrow> Block" where
  "NewBlock L now index timestamp data previousHash blockType =
    (let timestamp = (if IsZero timestamp then now else timestamp);
         blockType = (if blockType = [] then ''donation'' else blockType);
         block = \<lparr> Index = index, b_Timestamp = timestamp, Data = data,
                   PreviousHash = previousHash, BlockType = blockType, Hash = [],
                   Nonce = 0, Validated = False, Validators = [], MerkleRoot = [] \<rparr>;
         block = block\<lparr> MerkleRoot := calculateMerkleRoot L block \<rparr>;
         block = block\<lparr> Hash := calculateHash L block \<rparr>
     in block)"

partial_function (option) MineBlock :: "lib \<Rightarrow> nat \<Rightarrow> Block \<Rightarrow> Block option" where
  "MineBlock L difficulty b =
    (if HasPrefix (Hash b) (Repeat ''0'' difficulty) then Some b
     else MineBlock L difficulty
            (let b = b\<lparr> Nonce := Nonce b + 1 \<rparr> in b\<lparr> Hash := calculateHash L b \<rparr>))"

definition AddValidator :: "time \<Rightarrow> Block \<Rightarrow> string \<Rightarrow> string \<Rightarrow> string \<Rightarrow> Block" where
  "AddValidator now b validatorID signature validationType =
    (let validationType = (if validationType = [] then ''general'' else validationType);
         validator = \<lparr> ValidatorID = validatorID, v_Signature = signature,
                       ValidationType = validationType, v_Timestamp = now \<rparr>
     in b\<lparr> Validators := Validators b @ [validator] \<rparr>)"

definition IsValid_block :: "lib \<Rightarrow> Block \<Rightarrow> bool" where
  \<comment> \<open>\<open>Block.IsValid\<close>\<close>
  "IsValid_block L b = (Hash b = calculateHash L b \<and> Validated b)"

definition Validate :: "Block \<Rightarrow> Block" where
  "Validate b = b\<lparr> Validated := True \<rparr>"

text \<open>
  A chain's difficulty is a natural number: \<open>NewBlockchain\<close> is the only constructor and
  replaces a difficulty below 1 by 2.
\<close>

record Blockchain =
  bc_NGOID :: string
  ChainType :: string
  Chain :: "Block list"
  Difficulty :: nat
  PendingBlocks :: "Block list"
  NetworkNodes :: "string list"

definition createGenesisBlock :: "lib \<Rightarrow> time \<Rightarrow> string \<Rightarrow> string \<Rightarrow> Block" where
  "createGenesisBlock L now ngoID chainType =
    (let genesisData = JObj [(''type'', JStr ''genesis''), (''ngo_id'', JStr ngoID),
            (''chain_type'', JStr chainType),
            (''message'', JStr (''Genesis block for '' @ chainType @ '' chain of NGO '' @ ngoID))];
         genesisBlock = NewBlock L now 0 now genesisData ''0'' chainType;
         genesisBlock = genesisBlock\<lparr> Validated := True \<rparr>
     in AddValidator now genesisBlock ''system'' ''genesis_signature'' ''genesis'')"

definition NewBlockchain :: "lib \<Rightarrow> time \<Rightarrow> string \<Rightarrow> string \<Rightarrow> int \<Rightarrow> Blockchain" where
  "NewBlockchain L now ngoID chainType difficulty =
    (let difficulty = (if difficulty < 1 then 2 else difficulty);
         chainType = (if chainType \<noteq> ''donation'' \<and> chainType \<noteq> ''expenditure''
                      then ''donation'' else chainType)
     in \<lparr> bc_NGOID = ngoID, ChainType = chainType,
          Chain = [createGenesisBlock L now ngoID chainType],
          Difficulty = nat difficulty, PendingBlocks = [], NetworkNodes = [] \<rparr>)"

definition GetLatestBlock :: "Blockchain \<Rightarrow> Block option" where
  \<comment> \<open>\<open>None\<close> is the nil pointer\<close>
  "GetLatestBlock bc = (if length (Chain bc) = 0 then None else Some (last (Chain bc)))"

definition GetChainLength :: "Blockchain \<Rightarrow> int" where
  "GetChainLength bc = int (length (Chain bc))"

definition validateBlockInternal :: "lib \<Rightarrow> Blockchain \<Rightarrow> Block \<Rightarrow> bool" where
  "validateBlockInternal L bc block =
    (if length (Chain bc) = 0 then False
     else let previousBlock = last (Chain bc) in
       if PreviousHash block \<noteq> Hash previousBlock then False
       else if Hash block \<noteq> calculateHash L block then False
       else if \<not> HasPrefix (Hash block) (Repeat ''0'' (Difficulty bc)) then False
       else True)"

text \<open>
  \<open>AddBlock\<close> writes to the block it is given, so the model returns the chain, the block
  as the caller sees it afterwards, and the boolean. Indexing an empty chain panics.
\<close>

definition AddBlock :: "lib \<Rightarrow> Blockchain \<Rightarrow> Block \<Rightarrow> (Blockchain \<times> Block \<times> bool) run option" where
  "AddBlock L bc newBlock =
    (if Chain bc = [] then Some (Panics ''index out of range [-1]'')
     else
       let latestBlock = last (Chain bc);
           newBlock = newBlock\<lparr> PreviousHash := Hash latestBlock \<rparr>;
           newBlock = newBlock\<lparr> Index := int (length (Chain bc)) \<rparr>
       in case MineBlock L (Difficulty bc) newBlock of
            None \<Rightarrow> None
          | Some newBlock \<Rightarrow>
              if validateBlockInternal L bc newBlock
              then Some (Returns (bc\<lparr> Chain := Chain bc @ [newBlock] \<rparr>, newBlock, True))
              else Some (Returns (bc, newBlock, False)))"

fun chain_links_valid :: "lib \<Rightarrow> Block \<Rightarrow> Block list \<Rightarrow> bool" where
  \<comment> \<open>the loop of \<open>IsChainValid\<close> from index 1 on, with the previous block at hand\<close>
  "chain_links_valid L previousBlock [] = True"
| "chain_links_valid L previousBlock (currentBlock # rest) =
     (if \<not> IsValid_block L currentBlock then False
      else if PreviousHash currentBlock \<noteq> Hash previousBlock then False
      else chain_links_valid L currentBlock rest)"

definition IsChainValid :: "lib \<Rightarrow> Blockchain \<Rightarrow> bool" where
  "IsChainValid L bc = (case Chain bc of [] \<Rightarrow> True | b0 # rest \<Rightarrow> chain_links_valid L b0 rest)"

section \<open>Package crypto\<close>

record ZKProof =
  Commitment :: string
  Nullifier :: string
  Proof :: string
  zk_Timestamp :: time

definition GenerateProof :: "lib \<Rightarrow> time \<Rightarrow> string \<Rightarrow> float64 \<Rightarrow> time \<Rightarrow> ZKProof" where
  "GenerateProof L now donorID amount timestamp =
    (let timestamp = (if IsZero timestamp then now else timestamp);
         commitmentData = donorID @ Sprintf_f L 2 amount @ fmt_d (UnixNano timestamp);
         commitment = sha256_hex L commitmentData;
         nullifierData = commitment @ donorID;
         nullifier = sha256_hex L nullifierData;
         proofData = commitment @ nullifier @ fmt_d (UnixNano now);
         proof = sha256_hex L proofData
     in \<lparr> Commitment = commitment, Nullifier = nullifier, Proof = proof,
          zk_Timestamp = timestamp \<rparr>)"

definition VerifyProof :: "time \<Rightarrow> ZKProof option \<Rightarrow> float64 \<Rightarrow> time \<Rightarrow> bool" where
  \<comment> \<open>the proof is a pointer: \<open>None\<close> is nil\<close>
  "VerifyProof now proof amount timestamp =
    (case proof of
       None \<Rightarrow> False
     | Some proof \<Rightarrow>
         if Commitment proof = [] \<or> Nullifier proof = [] \<or> Proof proof = [] then False
         else
           let timeDiff = \<bar>Hours (Sub now timestamp)\<bar> in
           if timeDiff > 24 then False
           else MatchString hexPattern (Commitment proof)
                \<and> MatchString hexPattern (Nullifier proof)
                \<and> MatchString hexPattern (Proof proof))"

record MultiSigWallet =
  RequiredSignatures :: int
  Signers :: "string list"

definition NewMultiSigWallet :: "int \<Rightarrow> MultiSigWallet" where
  \<comment> \<open>the two maps of pending and executed transactions start empty and no modelled
      operation touches them\<close>
  "NewMultiSigWallet requiredSignatures =
    \<lparr> RequiredSignatures = (if requiredSignatures < 1 then 2 else requiredSignatures),
      Signers = [] \<rparr>"

definition AddSigner :: "MultiSigWallet \<Rightarrow> string \<Rightarrow> MultiSigWallet" where
  "AddSigner w address = (if address \<in> set (Signers w) then w
                          else w\<lparr> Signers := Signers w @ [address] \<rparr>)"

section \<open>Package transactions: expenditures\<close>

record InvoiceDetails =
  InvoiceNumber :: string
  GSTIN :: string
  VendorName :: string
  VendorGSTIN :: string
  InvoiceDate :: time
  Documents :: "string list"
  BankTransactionID :: string
  ChequeNumber :: string

record Attachment =
  Filename :: string
  att_Hash :: string
  att_Type :: string
  UploadedAt :: time

record AuditorValidation =
  av_AuditorID :: string
  IsValid :: bool
  Remarks :: string
  AuditScore :: float64
  av_Timestamp :: time
  av_Signature :: string

record ExpenditureTransaction =
  et_TransactionID :: string
  et_NGOID :: string
  et_Amount :: float64
  et_Category :: string
  et_Description :: string
  et_Timestamp :: time
  et_InvoiceDetails :: InvoiceDetails
  et_Attachments :: "Attachment list"
  et_Status :: string
  et_AuditorValidation :: "AuditorValidation option"
  ComplianceScore :: float64

definition VerifyGSTIN :: "string \<Rightarrow> bool" where
  "VerifyGSTIN gstin = (if gstin = [] then False else MatchString gstinRegex gstin)"

definition calculateComplianceScore :: "time \<Rightarrow> ExpenditureTransaction \<Rightarrow> float64" where
  "calculateComplianceScore now et =
    (let inv = et_InvoiceDetails et;
         score = 0;
         maxScore = 100;
         score = (if InvoiceNumber inv \<noteq> [] then score + 20 else score);
         score = (if VerifyGSTIN (GSTIN inv) then score + 20 else score);
         score = (if VendorName inv \<noteq> [] \<and> VendorGSTIN inv \<noteq> [] then score + 15 else score);
         score = (if BankTransactionID inv \<noteq> [] \<or> ChequeNumber inv \<noteq> [] then score + 15 else score);
         score = (if length (Documents inv) > 0 then score + 15 else score);
         score = (if length (et_Attachments et) > 0 then score + 10 else score);
         daysDiff = Hours (Since now (InvoiceDate inv)) / 24;
         score = (if daysDiff \<le> 90 then score + 5 else score)
     in min score maxScore)"

definition NewExpenditureTransaction ::
  "time \<Rightarrow> byte list \<Rightarrow> string \<Rightarrow> float64 \<Rightarrow> string \<Rightarrow> string \<Rightarrow> InvoiceDetails
     \<Rightarrow> Attachment list \<Rightarrow> ExpenditureTransaction" where
  \<comment> \<open>\<open>randomBytes\<close> are the 16 bytes read from \<open>crypto/rand\<close>; a nil slice of
      attachments and an empty one are the same list\<close>
  "NewExpenditureTransaction now randomBytes ngoID amount category description invoiceDetails attachments =
    (let transactionID = EncodeToString randomBytes;
         transaction = \<lparr> et_TransactionID = transactionID, et_NGOID = ngoID, et_Amount = amount,
            et_Category = category, et_Description = description, et_Timestamp = now,
            et_InvoiceDetails = invoiceDetails, et_Attachments = attachments,
            et_Status = ''pending_validation'', et_AuditorValidation = None,
            ComplianceScore = 0 \<rparr>
     in transaction\<lparr> ComplianceScore := calculateComplianceScore now transaction \<rparr>)"

definition ValidateByAuditor ::
  "lib \<Rightarrow> time \<Rightarrow> ExpenditureTransaction \<Rightarrow> string \<Rightarrow> bool \<Rightarrow> string \<Rightarrow> float64 option
     \<Rightarrow> ExpenditureTransaction" where
  \<comment> \<open>the audit score is a pointer: \<open>None\<close> is nil\<close>
  "ValidateByAuditor L now et auditorID isValid remarks auditScore =
    (let finalAuditScore = (case auditScore of None \<Rightarrow> ComplianceScore et | Some a \<Rightarrow> a);
         signatureData = auditorID @ et_TransactionID et @ fmt_t isValid @ fmt_d (UnixNano now);
         signature = sha256_hex L signatureData;
         validation = \<lparr> av_AuditorID = auditorID, IsValid = isValid, Remarks = remarks,
                        AuditScore = finalAuditScore, av_Timestamp = now,
                        av_Signature = signature \<rparr>;
         et = et\<lparr> et_AuditorValidation := Some validation \<rparr>
     in if isValid then et\<lparr> et_Status := ''validated'' \<rparr>
        else et\<lparr> et_Status := ''rejected'' \<rparr>)"

section \<open>Package transactions: donations\<close>

record TaxBenefit =
  Section :: string
  DeductibleAmount :: float64
  TaxSaving :: float64
  Note :: string

record EBill =
  BillID :: string
  eb_TransactionID :: string
  eb_Amount :: float64
  Currency :: string
  eb_Timestamp :: time
  eb_NGOID :: string
  DonorHash :: string
  eb_PaymentMethod :: string
  eb_TaxBenefit :: TaxBenefit
  ReceiptNumber :: string
  eb_Signature :: string
  QRCode :: string
  DownloadURL :: string
  ValidityPeriod :: string

record DonationTransaction =
  dt_TransactionID :: string
  dt_DonorID :: string
  dt_NGOID :: string
  dt_Amount :: float64
  dt_PaymentMethod :: string
  dt_Timestamp :: time
  dt_Status :: string
  DonorKYCHash :: string
  dt_ZKProof :: "ZKProof option"
  dt_EBill :: "EBill option"
  CompletedAt :: "time option"
  FailedAt :: "time option"
  FailureReason :: string

definition calculateTaxBenefit :: "DonationTransaction \<Rightarrow> TaxBenefit" where
  "calculateTaxBenefit dt =
    (let maxDeduction = min (dt_Amount dt) 10000
     in \<lparr> Section = ''80G'', DeductibleAmount = maxDeduction,
          TaxSaving = maxDeduction * (3 / 10),
          Note = ''Consult tax advisor for accurate calculations'' \<rparr>)"

definition TaxBenefit_json :: "TaxBenefit \<Rightarrow> json" where
  "TaxBenefit_json tb = JObj [(''section'', JStr (Section tb)),
     (''deductible_amount'', JNum (DeductibleAmount tb)),
     (''tax_saving'', JNum (TaxSaving tb)), (''note'', JStr (Note tb))]"

definition generateQRCode :: "lib \<Rightarrow> EBill \<Rightarrow> string" where
  "generateQRCode L billData =
    (let qrData = JObj [(''bill_id'', JStr (BillID billData)),
            (''amount'', JNum (eb_Amount billData)),
            (''ngo_id'', JStr (eb_NGOID billData)),
            (''timestamp'', JInt (Unix (eb_Timestamp billData)))];
         qrBytes = Marshal L qrData;
         qrBase64 = StdEncoding L qrBytes
     in ''QR:'' @ qrBase64)"

definition bill_signatureData :: "EBill \<Rightarrow> json" where
  \<comment> \<open>the map \<open>generateBillSignature\<close> marshals: the bill without its signature, QR
      code and download URL, the timestamp in whole seconds\<close>
  "bill_signatureData billData = JObj [
     (''bill_id'', JStr (BillID billData)),
     (''transaction_id'', JStr (eb_TransactionID billData)),
     (''amount'', JNum (eb_Amount billData)),
     (''currency'', JStr (Currency billData)),
     (''timestamp'', JInt (Unix (eb_Timestamp billData))),
     (''ngo_id'', JStr (eb_NGOID billData)),
     (''donor_hash'', JStr (DonorHash billData)),
     (''payment_method'', JStr (eb_PaymentMethod billData)),
     (''tax_benefit'', TaxBenefit_json (eb_TaxBenefit billData)),
     (''receipt_number'', JStr (ReceiptNumber billData)),
     (''validity_period'', JStr (ValidityPeriod billData))]"

definition generateBillSignature :: "lib \<Rightarrow> EBill \<Rightarrow> string" where
  "generateBillSignature L billData = sha256_hex L (Marshal L (bill_signatureData billData))"

definition generateEBill :: "lib \<Rightarrow> byte list \<Rightarrow> DonationTransaction \<Rightarrow> EBill" where
  \<comment> \<open>\<open>randomBytes\<close> are the 12 bytes read from \<open>crypto/rand\<close>\<close>
  "generateEBill L randomBytes dt =
    (let billID = EncodeToString randomBytes;
         donorHash = sha256_hex L (dt_DonorID dt);
         taxBenefit = calculateTaxBenefit dt;
         receiptNumber = ''RCP-'' @ fmt_d (Unix (dt_Timestamp dt)) @ ''-''
                           @ ToUpper (EncodeToString (take 5 randomBytes));
         billData = \<lparr> BillID = billID, eb_TransactionID = dt_TransactionID dt,
            eb_Amount = dt_Amount dt, Currency = ''INR'', eb_Timestamp = dt_Timestamp dt,
            eb_NGOID = dt_NGOID dt, DonorHash = donorHash,
            eb_PaymentMethod = dt_PaymentMethod dt, eb_TaxBenefit = taxBenefit,
            ReceiptNumber = receiptNumber, eb_Signature = [], QRCode = [],
            DownloadURL = ''https://receipts.ngo/'' @ billID,
            ValidityPeriod = ''7 years'' \<rparr>;
         billData = billData\<lparr> eb_Signature := generateBillSignature L billData \<rparr>;
         billData = billData\<lparr> QRCode := generateQRCode L billData \<rparr>
     in billData)"

definition NewDonationTransaction ::
  "lib \<Rightarrow> time \<Rightarrow> byte list \<Rightarrow> byte list \<Rightarrow> string \<Rightarrow> string \<Rightarrow> float64 \<Rightarrow> string \<Rightarrow> string
     \<Rightarrow> DonationTransaction" where
  \<comment> \<open>\<open>randomBytes\<close>: the 16 bytes of the transaction id; \<open>billBytes\<close>: the 12 bytes
      \<open>generateEBill\<close> reads\<close>
  "NewDonationTransaction L now randomBytes billBytes donorID ngoID amount paymentMethod donorKYCHash =
    (let transactionID = EncodeToString randomBytes;
         timestamp = now;
         transaction = \<lparr> dt_TransactionID = transactionID, dt_DonorID = donorID,
            dt_NGOID = ngoID, dt_Amount = amount, dt_PaymentMethod = paymentMethod,
            dt_Timestamp = timestamp, dt_Status = ''pending'', DonorKYCHash = donorKYCHash,
            dt_ZKProof = None, dt_EBill = None, CompletedAt = None, FailedAt = None,
            FailureReason = [] \<rparr>;
         transaction = transaction\<lparr> dt_ZKProof := Some (GenerateProof L now donorID amount timestamp) \<rparr>;
         transaction = transaction\<lparr> dt_EBill := Some (generateEBill L billBytes transaction) \<rparr>
     in transaction)"

definition ValidateEBill :: "lib \<Rightarrow> DonationTransaction \<Rightarrow> bool" where
  "ValidateEBill L dt =
    (case dt_EBill dt of
       None \<Rightarrow> False
     | Some bill \<Rightarrow>
         let originalSignature = eb_Signature bill;
             recalculatedSignature = generateBillSignature L bill
         in originalSignature = recalculatedSignature)"

definition MarkComplete :: "time \<Rightarrow> DonationTransaction \<Rightarrow> DonationTransaction" where
  "MarkComplete now dt = dt\<lparr> dt_Status := ''completed'', CompletedAt := Some now \<rparr>"

definition MarkFailed :: "time \<Rightarrow> DonationTransaction \<Rightarrow> string \<Rightarrow> DonationTransaction" where
  "MarkFailed now dt reason =
     dt\<lparr> dt_Status := ''failed'', FailedAt := Some now, FailureReason := reason \<rparr>"

section \<open>Package entities: donors\<close>

record DonorKYCData =
  DocumentHash :: string
  dk_VerificationDate :: "time option"
  dk_VerificationAuthority :: string
  DocumentsSubmitted :: "string list"
  VerificationLevel :: string

record DonationRecord =
  dr_TransactionID :: string
  dr_NGOID :: string
  dr_Amount :: float64
  dr_Timestamp :: time
  dr_EBill :: "EBill option"
  dr_ZKProof :: "ZKProof option"
  dr_TaxBenefit :: TaxBenefit

record TaxBenefitSummary =
  tbs_Year :: int
  TotalDonated :: float64
  TotalDeductible :: float64
  EstimatedTaxSaving :: float64
  Donations :: "DonationRecord list"

record DonationLimit =
  CanDonate :: bool
  CurrentYearTotal :: float64
  Limit :: float64
  RemainingLimit :: float64

record Donor =
  DonorID :: string
  KYCVerified :: bool
  donor_KYCData :: DonorKYCData
  DonationHistory :: "DonationRecord list"
  donor_TotalDonated :: float64
  PreferredNGOs :: "string list"
  TaxBenefits :: "TaxBenefitSummary list"
  donor_CreatedAt :: time
  AnnualDonationLimit :: float64

definition NewDonor :: "lib \<Rightarrow> time \<Rightarrow> string \<Rightarrow> (string \<times> json) list \<Rightarrow> Donor" where
  "NewDonor L now donorID kycData =
    (let (documentsSubmitted, kycDocHash) =
           (case map_of kycData ''documents'' of
              Some (JStrings docsList) \<Rightarrow>
                (docsList, sha256_hex L (Sprintf_v L (JStrings docsList)))
            | _ \<Rightarrow> ([], []));
         annualLimit = (case map_of kycData ''annual_limit'' of
                          Some (JNum limit) \<Rightarrow> limit | _ \<Rightarrow> 1000000)
     in \<lparr> DonorID = donorID, KYCVerified = False,
          donor_KYCData = \<lparr> DocumentHash = kycDocHash, dk_VerificationDate = None,
             dk_VerificationAuthority = [], DocumentsSubmitted = documentsSubmitted,
             VerificationLevel = [] \<rparr>,
          DonationHistory = [], donor_TotalDonated = 0, PreferredNGOs = [], TaxBenefits = [],
          donor_CreatedAt = now, AnnualDonationLimit = annualLimit \<rparr>)"

definition Donor_VerifyKYC :: "time \<Rightarrow> Donor \<Rightarrow> string \<Rightarrow> string \<Rightarrow> Donor" where
  "Donor_VerifyKYC now d authorityID verificationLevel =
    (let verificationLevel = (if verificationLevel = [] then ''basic'' else verificationLevel);
         d = d\<lparr> KYCVerified := True,
                 donor_KYCData := (donor_KYCData d)\<lparr> dk_VerificationDate := Some now,
                    dk_VerificationAuthority := authorityID,
                    VerificationLevel := verificationLevel \<rparr> \<rparr>
     in if verificationLevel = ''premium'' then d\<lparr> AnnualDonationLimit := 5000000 \<rparr> else d)"

fun add_to_year :: "int \<Rightarrow> DonationRecord \<Rightarrow> TaxBenefitSummary list \<Rightarrow> TaxBenefitSummary list option" where
  \<comment> \<open>the first summary of that year, updated; \<open>None\<close> when there is none\<close>
  "add_to_year year donation [] = None"
| "add_to_year year donation (b # bs) =
     (if tbs_Year b = year
      then Some (b\<lparr> Donations := Donations b @ [donation],
                     TotalDonated := TotalDonated b + dr_Amount donation,
                     TotalDeductible := TotalDeductible b + DeductibleAmount (dr_TaxBenefit donation),
                     EstimatedTaxSaving := EstimatedTaxSaving b + TaxSaving (dr_TaxBenefit donation) \<rparr> # bs)
      else map_option (\<lambda>bs'. b # bs') (add_to_year year donation bs))"

definition updateTaxBenefits :: "lib \<Rightarrow> Donor \<Rightarrow> DonationRecord \<Rightarrow> Donor" where
  "updateTaxBenefits L d donation =
    (let year = Year L (dr_Timestamp donation);
         newBenefit = \<lparr> tbs_Year = year, TotalDonated = 0, TotalDeductible = 0,
                        EstimatedTaxSaving = 0, Donations = [] \<rparr>
     in case add_to_year year donation (TaxBenefits d) of
          Some bs \<Rightarrow> d\<lparr> TaxBenefits := bs \<rparr>
        | None \<Rightarrow> d\<lparr> TaxBenefits := TaxBenefits d @
              [newBenefit\<lparr> Donations := Donations newBenefit @ [donation],
                 TotalDonated := TotalDonated newBenefit + dr_Amount donation,
                 TotalDeductible := TotalDeductible newBenefit
                                      + DeductibleAmount (dr_TaxBenefit donation),
                 EstimatedTaxSaving := EstimatedTaxSaving newBenefit
                                      + TaxSaving (dr_TaxBenefit donation) \<rparr>] \<rparr>)"

definition AddDonation :: "lib \<Rightarrow> Donor \<Rightarrow> DonationTransaction \<Rightarrow> Donor run" where
  \<comment> \<open>reads \<open>donation.EBill.TaxBenefit\<close>: a nil e-bill panics\<close>
  "AddDonation L d donation =
    (case dt_EBill donation of
       None \<Rightarrow> Panics ''nil pointer dereference''
     | Some bill \<Rightarrow>
         let donationRecord = \<lparr> dr_TransactionID = dt_TransactionID donation,
                dr_NGOID = dt_NGOID donation, dr_Amount = dt_Amount donation,
                dr_Timestamp = dt_Timestamp donation, dr_EBill = dt_EBill donation,
                dr_ZKProof = dt_ZKProof donation, dr_TaxBenefit = eb_TaxBenefit bill \<rparr>;
             d = d\<lparr> DonationHistory := DonationHistory d @ [donationRecord],
                     donor_TotalDonated := donor_TotalDonated d + dt_Amount donation \<rparr>
         in Returns (updateTaxBenefits L d donationRecord))"

definition CheckDonationLimit :: "lib \<Rightarrow> time \<Rightarrow> Donor \<Rightarrow> float64 \<Rightarrow> DonationLimit" where
  "CheckDonationLimit L now d amount =
    (let currentYear = Year L now;
         yearlyTotal = foldl (\<lambda>yearlyTotal donation.
                          if Year L (dr_Timestamp donation) = currentYear
                          then yearlyTotal + dr_Amount donation else yearlyTotal)
                        0 (DonationHistory d);
         canDonate = (yearlyTotal + amount \<le> AnnualDonationLimit d);
         remainingLimit = AnnualDonationLimit d - yearlyTotal
     in \<lparr> CanDonate = canDonate, CurrentYearTotal = yearlyTotal,
          Limit = AnnualDonationLimit d, RemainingLimit = remainingLimit \<rparr>)"

section \<open>Package entities: auditors\<close>

record AuditResult =
  AuditID :: string
  ExpenditureID :: string
  ar_AuditorID :: string
  ar_Timestamp :: time
  ar_ComplianceScore :: float64
  Findings :: "string list"
  Recommendation :: string
  AuditNotes :: string
  ar_Signature :: string

record Auditor =
  AuditorID :: string
  aud_Name :: string
  Credentials :: json
  Specializations :: "string list"
  Verified :: bool
  AuditHistory :: "AuditResult list"
  aud_Rating :: float64
  aud_CreatedAt :: time
  aud_PublicKey :: string
  aud_VerificationAuthority :: string
  aud_VerificationDate :: "time option"

definition NewAuditor :: "lib \<Rightarrow> time \<Rightarrow> string \<Rightarrow> string \<Rightarrow> json \<Rightarrow> string list \<Rightarrow> Auditor" where
  "NewAuditor L now auditorID name credentials specializations =
    (let publicKeyData = auditorID @ name;
         publicKey = sha256_hex L publicKeyData
     in \<lparr> AuditorID = auditorID, aud_Name = name, Credentials = credentials,
          Specializations = specializations, Verified = False, AuditHistory = [],
          aud_Rating = 5, aud_CreatedAt = now, aud_PublicKey = publicKey,
          aud_VerificationAuthority = [], aud_VerificationDate = None \<rparr>)"

definition VerifyCredentials :: "time \<Rightarrow> Auditor \<Rightarrow> string \<Rightarrow> Auditor" where
  "VerifyCredentials now a verificationAuthority =
     a\<lparr> Verified := True, aud_VerificationAuthority := verificationAuthority,
        aud_VerificationDate := Some now \<rparr>"

definition generateFindings :: "lib \<Rightarrow> time \<Rightarrow> ExpenditureTransaction \<Rightarrow> string list" where
  "generateFindings L now expenditure =
    (let inv = et_InvoiceDetails expenditure;
         findings = [];
         findings = (if \<not> VerifyGSTIN (GSTIN inv)
                     then findings @ [''Invalid GSTIN format''] else findings);
         findings = (if BankTransactionID inv = [] \<and> ChequeNumber inv = []
                     then findings @ [''Missing payment proof''] else findings);
         findings = (if length (Documents inv) = 0
                     then findings @ [''No supporting documents provided''] else findings);
         findings = (if ComplianceScore expenditure < 80
                     then findings @ [''Low compliance score: ''
                            @ Sprintf_f L 1 (ComplianceScore expenditure) @ ''%'']
                     else findings);
         findings = (if VendorGSTIN inv \<noteq> [] \<and> \<not> VerifyGSTIN (VendorGSTIN inv)
                     then findings @ [''Invalid vendor GSTIN format''] else findings);
         daysDiff = Hours (Since now (InvoiceDate inv)) / 24;
         findings = (if daysDiff > 90
                     then findings @ [''Invoice is older than 90 days (''
                            @ Sprintf_f L 0 daysDiff @ '' days)'']
                     else findings);
         findings = (if InvoiceNumber inv = []
                     then findings @ [''Missing invoice number''] else findings);
         findings = (if VendorName inv = []
                     then findings @ [''Missing vendor name''] else findings)
     in findings)"

definition generateRecommendation :: "ExpenditureTransaction \<Rightarrow> string" where
  "generateRecommendation expenditure =
    (let score = ComplianceScore expenditure in
     if score \<ge> 90 then ''Approve - Excellent compliance''
     else if score \<ge> 80 then ''Approve - Good compliance with minor observations''
     else if score \<ge> 70 then ''Approve with conditions - Address noted observations''
     else if score \<ge> 60 then ''Conditional approval - Requires additional documentation''
     else if score \<ge> 50 then ''Review required - Significant compliance gaps''
     else ''Reject - Insufficient compliance and documentation'')"

definition AuditExpenditure ::
  "lib \<Rightarrow> time \<Rightarrow> Auditor \<Rightarrow> ExpenditureTransaction \<Rightarrow> string \<Rightarrow> (Auditor \<times> AuditResult) run" where
  \<comment> \<open>\<open>a.AuditorID[:8]\<close> panics on an id shorter than 8 bytes\<close>
  "AuditExpenditure L now a expenditure auditNotes =
    (if length (AuditorID a) < 8
     then Panics ''slice bounds out of range [:8]''
     else
       let auditID = ''AUD-'' @ fmt_d (Unix now) @ ''-'' @ take 8 (AuditorID a);
           findings = generateFindings L now expenditure;
           recommendation = generateRecommendation expenditure;
           signatureData = auditID @ et_TransactionID expenditure @ AuditorID a;
           signature = sha256_hex L signatureData;
           auditResult = \<lparr> AuditID = auditID, ExpenditureID = et_TransactionID expenditure,
              ar_AuditorID = AuditorID a, ar_Timestamp = now,
              ar_ComplianceScore = ComplianceScore expenditure, Findings = findings,
              Recommendation = recommendation, AuditNotes = auditNotes,
              ar_Signature = signature \<rparr>
       in Returns (a\<lparr> AuditHistory := AuditHistory a @ [auditResult] \<rparr>, auditResult))"

section \<open>Package entities: NGOs\<close>

record KYCData =
  kyc_Verified :: bool
  DocumentsHash :: string
  kyc_VerificationDate :: "time option"
  kyc_VerificationAuthority :: string

record Certificate =
  cert_Type :: string
  cert_Number :: string
  ValidUntil :: string

record ProcessResult =
  Success :: bool
  BlockHash :: string
  pr_TransactionID :: string
  BlockIndex :: int
  pr_EBill :: json

record NGO =
  NGOID :: string
  ngo_Name :: string
  RegistrationNumber :: string
  Category :: string
  Rating :: float64
  ngo_KYCData :: KYCData
  DonationBlockchain :: Blockchain
  ExpenditureBlockchain :: Blockchain
  ngo_MultiSigWallet :: MultiSigWallet
  TotalDonationsReceived :: float64
  TotalExpenditureReported :: float64
  TransparencyScore :: int
  ngo_CreatedAt :: time
  LastAuditDate :: "time option"
  Certificates :: "Certificate list"
  ngo_PublicKey :: string

definition NewNGO ::
  "lib \<Rightarrow> time \<Rightarrow> string \<Rightarrow> string \<Rightarrow> string \<Rightarrow> string \<Rightarrow> (string \<times> json) list \<Rightarrow> string list \<Rightarrow> NGO" where
  "NewNGO L now ngoID name registrationNumber category kycData signers =
    (let publicKeyData = ngoID @ registrationNumber;
         publicKey = sha256_hex L publicKeyData;
         kycDocHash = (case map_of kycData ''documents'' of
                         Some docs \<Rightarrow> sha256_hex L (Sprintf_v L docs) | None \<Rightarrow> []);
         ngo = \<lparr> NGOID = ngoID, ngo_Name = name, RegistrationNumber = registrationNumber,
            Category = category, Rating = 5,
            ngo_KYCData = \<lparr> kyc_Verified = False, DocumentsHash = kycDocHash,
               kyc_VerificationDate = None, kyc_VerificationAuthority = [] \<rparr>,
            DonationBlockchain = NewBlockchain L now ngoID ''donation'' 2,
            ExpenditureBlockchain = NewBlockchain L now ngoID ''expenditure'' 2,
            ngo_MultiSigWallet = NewMultiSigWallet 2,
            TotalDonationsReceived = 0, TotalExpenditureReported = 0,
            TransparencyScore = 100, ngo_CreatedAt = now, LastAuditDate = None,
            Certificates = [], ngo_PublicKey = publicKey \<rparr>
     in ngo\<lparr> ngo_MultiSigWallet := foldl AddSigner (ngo_MultiSigWallet ngo) signers \<rparr>)"

definition NGO_VerifyKYC :: "time \<Rightarrow> NGO \<Rightarrow> string \<Rightarrow> Certificate list \<Rightarrow> NGO" where
  "NGO_VerifyKYC now ngo authorityID certificates =
     ngo\<lparr> ngo_KYCData := (ngo_KYCData ngo)\<lparr> kyc_Verified := True,
              kyc_VerificationDate := Some now, kyc_VerificationAuthority := authorityID \<rparr>,
          Certificates := certificates \<rparr>"

definition generateDonorHash :: "lib \<Rightarrow> string \<Rightarrow> string" where
  "generateDonorHash L donorID = sha256_hex L donorID"

definition ZKProof_json :: "ZKProof option \<Rightarrow> json" where
  "ZKProof_json p = (case p of None \<Rightarrow> JNull
     | Some p \<Rightarrow> JObj [(''commitment'', JStr (Commitment p)), (''nullifier'', JStr (Nullifier p)),
         (''proof'', JStr (Proof p)), (''timestamp'', JTime (zk_Timestamp p))])"

definition EBill_json :: "EBill option \<Rightarrow> json" where
  "EBill_json b = (case b of None \<Rightarrow> JNull
     | Some b \<Rightarrow> JObj [(''bill_id'', JStr (BillID b)),
         (''transaction_id'', JStr (eb_TransactionID b)), (''amount'', JNum (eb_Amount b)),
         (''currency'', JStr (Currency b)), (''timestamp'', JTime (eb_Timestamp b)),
         (''ngo_id'', JStr (eb_NGOID b)), (''donor_hash'', JStr (DonorHash b)),
         (''payment_method'', JStr (eb_PaymentMethod b)),
         (''tax_benefit'', TaxBenefit_json (eb_TaxBenefit b)),
         (''receipt_number'', JStr (ReceiptNumber b)), (''signature'', JStr (eb_Signature b)),
         (''qr_code'', JStr (QRCode b)), (''download_url'', JStr (DownloadURL b)),
         (''validity_period'', JStr (ValidityPeriod b))])"

definition InvoiceDetails_json :: "InvoiceDetails \<Rightarrow> json" where
  "InvoiceDetails_json invoice = JObj [(''invoice_number'', JStr (InvoiceNumber invoice)),
     (''gstin'', JStr (GSTIN invoice)), (''vendor_name'', JStr (VendorName invoice)),
     (''vendor_gstin'', JStr (VendorGSTIN invoice)), (''invoice_date'', JTime (InvoiceDate invoice)),
     (''documents'', JStrings (Documents invoice)),
     (''bank_transaction_id'', JStr (BankTransactionID invoice)),
     (''cheque_number'', JStr (ChequeNumber invoice))]"

definition AuditorValidation_json :: "AuditorValidation option \<Rightarrow> json" where
  "AuditorValidation_json v = (case v of None \<Rightarrow> JNull
     | Some v \<Rightarrow> JObj [(''auditor_id'', JStr (av_AuditorID v)), (''is_valid'', JBool (IsValid v)),
         (''remarks'', JStr (Remarks v)), (''audit_score'', JNum (AuditScore v)),
         (''timestamp'', JTime (av_Timestamp v)), (''signature'', JStr (av_Signature v))])"

definition extractAttachmentHashes :: "Attachment list \<Rightarrow> json" where
  "extractAttachmentHashes attachments =
     JArr (map (\<lambda>att. JObj [(''filename'', JStr (Filename att)), (''hash'', JStr (att_Hash att)),
                             (''type'', JStr (att_Type att))]) attachments)"

text \<open>
  The NGO's two operations write to the transaction they are given as well as to the NGO,
  so the model returns both with the result or the error.
\<close>

definition NGO_ProcessDonation ::
  "lib \<Rightarrow> time \<Rightarrow> NGO \<Rightarrow> DonationTransaction
     \<Rightarrow> (NGO \<times> DonationTransaction \<times> (string + ProcessResult)) run option" where
  "NGO_ProcessDonation L now ngo donation =
    (if \<not> ValidateEBill L donation then Some (Returns (ngo, donation, Inl ''invalid e-bill''))
     else if \<not> VerifyProof now (dt_ZKProof donation) (dt_Amount donation) (dt_Timestamp donation)
     then Some (Returns (ngo, donation, Inl ''invalid zero-knowledge proof''))
     else
       let blockData = JObj [(''type'', JStr ''donation''),
              (''transaction_id'', JStr (dt_TransactionID donation)),
              (''donor_hash'', JStr (generateDonorHash L (dt_DonorID donation))),
              (''amount'', JNum (dt_Amount donation)),
              (''currency'', JStr ''INR''),
              (''zk_proof'', ZKProof_json (dt_ZKProof donation)),
              (''e_bill'', EBill_json (dt_EBill donation)),
              (''timestamp'', JTime (dt_Timestamp donation)),
              (''payment_method'', JStr (dt_PaymentMethod donation))]
       in case (GetLatestBlock (DonationBlockchain ngo), dt_EBill donation, dt_ZKProof donation) of
            (Some latestBlock, Some bill, Some zk) \<Rightarrow>
              let block = NewBlock L now (GetChainLength (DonationBlockchain ngo)) now blockData
                            (Hash latestBlock) ''donation'';
                  block = Validate block;
                  block = AddValidator now block ''ebill_system'' (eb_Signature bill) ''ebill'';
                  block = AddValidator now block ''zk_system'' (Proof zk) ''zkproof''
              in (case AddBlock L (DonationBlockchain ngo) block of
                    None \<Rightarrow> None
                  | Some (Panics msg) \<Rightarrow> Some (Panics msg)
                  | Some (Returns (bc, block, added)) \<Rightarrow>
                      if added then
                        let ngo = ngo\<lparr> DonationBlockchain := bc,
                                        TotalDonationsReceived :=
                                          TotalDonationsReceived ngo + dt_Amount donation \<rparr>;
                            donation = MarkComplete now donation
                        in Some (Returns (ngo, donation,
                             Inr \<lparr> Success = True, BlockHash = Hash block,
                                   pr_TransactionID = dt_TransactionID donation,
                                   BlockIndex = Index block,
                                   pr_EBill = EBill_json (dt_EBill donation) \<rparr>))
                      else
                        Some (Returns (ngo\<lparr> DonationBlockchain := bc \<rparr>,
                                MarkFailed now donation ''Block validation failed'',
                                Inl ''failed to add block to blockchain'')))
          | _ \<Rightarrow> Some (Panics ''nil pointer dereference''))"

definition NGO_ProcessExpenditure ::
  "lib \<Rightarrow> time \<Rightarrow> NGO \<Rightarrow> ExpenditureTransaction \<Rightarrow> (NGO \<times> (string + ProcessResult)) run option" where
  "NGO_ProcessExpenditure L now ngo expenditure =
    (case et_AuditorValidation expenditure of
       None \<Rightarrow> Some (Returns (ngo, Inl ''expenditure not validated by auditor''))
     | Some validation \<Rightarrow>
       if \<not> IsValid validation
       then Some (Returns (ngo, Inl ''expenditure not validated by auditor''))
       else if \<not> VerifyGSTIN (GSTIN (et_InvoiceDetails expenditure))
       then Some (Returns (ngo, Inl ''invalid GSTIN format''))
       else if ComplianceScore expenditure < 60
       then Some (Returns (ngo, Inl (''low compliance score: ''
                    @ Sprintf_f L 1 (ComplianceScore expenditure)
                    @ ''%. Minimum required: 60%'')))
       else
         let blockData = JObj [(''type'', JStr ''expenditure''),
                (''transaction_id'', JStr (et_TransactionID expenditure)),
                (''amount'', JNum (et_Amount expenditure)),
                (''currency'', JStr ''INR''),
                (''category'', JStr (et_Category expenditure)),
                (''description'', JStr (et_Description expenditure)),
                (''invoice_details'', InvoiceDetails_json (et_InvoiceDetails expenditure)),
                (''auditor_validation'', AuditorValidation_json (et_AuditorValidation expenditure)),
                (''compliance_score'', JNum (ComplianceScore expenditure)),
                (''timestamp'', JTime (et_Timestamp expenditure)),
                (''attachments'', extractAttachmentHashes (et_Attachments expenditure))]
         in (case GetLatestBlock (ExpenditureBlockchain ngo) of
              None \<Rightarrow> Some (Panics ''nil pointer dereference'')
            | Some latestBlock \<Rightarrow>
                let block = NewBlock L now (GetChainLength (ExpenditureBlockchain ngo)) now
                              blockData (Hash latestBlock) ''expenditure'';
                    block = Validate block;
                    block = AddValidator now block (av_AuditorID validation)
                              (av_Signature validation) ''auditor''
                in (case AddBlock L (ExpenditureBlockchain ngo) block of
                      None \<Rightarrow> None
                    | Some (Panics msg) \<Rightarrow> Some (Panics msg)
                    | Some (Returns (bc, block, added)) \<Rightarrow>
                        if added then
                          Some (Returns (ngo\<lparr> ExpenditureBlockchain := bc,
                                    TotalExpenditureReported :=
                                      TotalExpenditureReported ngo + et_Amount expenditure \<rparr>,
                                  Inr \<lparr> Success = True, BlockHash = Hash block,
                                        pr_TransactionID = et_TransactionID expenditure,
                                        BlockIndex = Index block, pr_EBill = JNull \<rparr>))
                        else
                          Some (Returns (ngo\<lparr> ExpenditureBlockchain := bc \<rparr>,
                                  Inl ''failed to add expenditure block to blockchain'')))))"

section \<open>Package polygon: the anchoring simulator\<close>

record AnchorResult =
  PolygonTxHash :: string
  DataHash :: string
  anchor_Timestamp :: time
  BlockNumber :: int
  GasUsed :: int
  Confirmations :: int

record PolygonIntegration =
  ProviderURL :: string
  PrivateKey :: string
  ContractAddress :: string
  GasLimit :: int
  GasPrice :: "int option"
  Anchors :: "(string \<times> AnchorResult) list"
  WalletAddress :: string

text \<open>
  What one call of the orchestrator reads from the random sources: the 16 bytes of the
  transaction id, the 12 bytes of the bill id, and the anchor's transaction hash, block
  offset and gas offset.
\<close>

record draws =
  txBytes :: "byte list"
  billBytes :: "byte list"
  anchorTxBytes :: "byte list"
  anchorBlockOffset :: int
  anchorGasOffset :: int

definition generateWalletAddress :: "lib \<Rightarrow> string \<Rightarrow> string" where
  "generateWalletAddress L privateKey = ''0x'' @ EncodeToString (take 20 (Sum256 L privateKey))"

definition NewPolygonIntegration :: "lib \<Rightarrow> string \<Rightarrow> string \<Rightarrow> int \<Rightarrow> int option \<Rightarrow> PolygonIntegration" where
  "NewPolygonIntegration L providerURL privateKey gasLimit gasPrice =
    \<lparr> ProviderURL = providerURL, PrivateKey = privateKey, ContractAddress = [],
      GasLimit = (if gasLimit = 0 then 300000 else gasLimit), GasPrice = gasPrice,
      Anchors = [], WalletAddress = generateWalletAddress L privateKey \<rparr>"

definition AnchorBlockHash ::
  "lib \<Rightarrow> time \<Rightarrow> draws \<Rightarrow> PolygonIntegration \<Rightarrow> string \<Rightarrow> string \<Rightarrow> string
     \<Rightarrow> (string \<times> json) list \<Rightarrow> PolygonIntegration \<times> AnchorResult" where
  \<comment> \<open>the simulator never returns an error\<close>
  "AnchorBlockHash L now rnd pg blockHash ngoID chainType additionalData =
    (let anchorData = [(''block_hash'', JStr blockHash), (''ngo_id'', JStr ngoID),
                       (''chain_type'', JStr chainType), (''timestamp'', JTime now)];
         anchorData = foldl (\<lambda>m kv. AList.update (fst kv) (snd kv) m) anchorData additionalData;
         dataHash = sha256_hex L (Sprintf_v L (JObj anchorData));
         simulatedTxHash = ''0x'' @ EncodeToString (anchorTxBytes rnd);
         blockNumber = 50000000 + anchorBlockOffset rnd;
         gasUsed = 21000 + anchorGasOffset rnd;
         anchorResult = \<lparr> PolygonTxHash = simulatedTxHash, DataHash = dataHash,
            anchor_Timestamp = now, BlockNumber = blockNumber, GasUsed = gasUsed,
            Confirmations = 12 \<rparr>
     in (pg\<lparr> Anchors := AList.update blockHash anchorResult (Anchors pg) \<rparr>, anchorResult))"

definition AnchorResult_json :: "AnchorResult \<Rightarrow> json" where
  "AnchorResult_json a = JObj [(''polygon_tx_hash'', JStr (PolygonTxHash a)),
     (''data_hash'', JStr (DataHash a)), (''timestamp'', JTime (anchor_Timestamp a)),
     (''block_number'', JInt (BlockNumber a)), (''gas_used'', JInt (GasUsed a)),
     (''confirmations'', JInt (Confirmations a))]"

section \<open>Package platform: the orchestrator\<close>

text \<open>
  The three registries are Go maps from ids to entities: association lists here, looked up
  with \<open>map_of\<close> and written with \<open>AList.update\<close>. The set of KYC authorities is a
  list without repetitions.
\<close>

record SystemStats =
  TotalTransactions :: int
  TotalDonations :: float64
  TotalExpenditures :: float64
  PlatformFee :: float64
  ss_CreatedAt :: time

record PlatformStats =
  TotalNGOs :: int
  TotalDonors :: int
  TotalAuditors :: int
  ps_TotalTransactions :: int
  ps_TotalDonations :: float64
  ps_TotalExpenditures :: float64
  PlatformFeeCollected :: float64
  VerifiedNGOs :: int
  VerifiedDonors :: int
  VerifiedAuditors :: int
  ps_KYCAuthorities :: int
  DaysActive :: int
  AverageNGORating :: float64
  Categories :: "string list"

record NGOTransparencyPlatform =
  NGOs :: "(string \<times> NGO) list"
  Donors :: "(string \<times> Donor) list"
  Auditors :: "(string \<times> Auditor) list"
  Polygon :: "PolygonIntegration option"
  Stats :: SystemStats
  KYCAuthorities :: "string list"

record DonationOutput =
  do_success :: bool
  do_block_hash :: string
  do_transaction_id :: string
  do_block_index :: int
  do_e_bill :: json
  platform_fee :: float64
  net_amount :: float64
  gross_amount :: float64

record ExpenditureOutput =
  eo_success :: bool
  eo_block_hash :: string
  eo_transaction_id :: string
  eo_block_index :: int
  audit_result :: AuditResult

definition NewNGOTransparencyPlatform :: "time \<Rightarrow> NGOTransparencyPlatform" where
  "NewNGOTransparencyPlatform now =
    \<lparr> NGOs = [], Donors = [], Auditors = [], Polygon = None,
      Stats = \<lparr> TotalTransactions = 0, TotalDonations = 0, TotalExpenditures = 0,
                PlatformFee = 1 / 100, ss_CreatedAt = now \<rparr>,
      KYCAuthorities = [] \<rparr>"

definition InitializePolygon ::
  "lib \<Rightarrow> NGOTransparencyPlatform \<Rightarrow> string \<Rightarrow> string \<Rightarrow> int \<Rightarrow> int option \<Rightarrow> NGOTransparencyPlatform" where
  "InitializePolygon L p providerURL privateKey gasLimit gasPrice =
     p\<lparr> Polygon := Some (NewPolygonIntegration L providerURL privateKey gasLimit gasPrice) \<rparr>"

definition RegisterNGO ::
  "lib \<Rightarrow> time \<Rightarrow> NGOTransparencyPlatform \<Rightarrow> string \<Rightarrow> string \<Rightarrow> string \<Rightarrow> string
     \<Rightarrow> (string \<times> json) list \<Rightarrow> string list \<Rightarrow> NGOTransparencyPlatform \<times> (string + NGO)" where
  "RegisterNGO L now p ngoID name registrationNumber category kycData signers =
    (case map_of (NGOs p) ngoID of
       Some _ \<Rightarrow> (p, Inl ''NGO already registered'')
     | None \<Rightarrow>
         let ngo = NewNGO L now ngoID name registrationNumber category kycData signers
         in (p\<lparr> NGOs := AList.update ngoID ngo (NGOs p) \<rparr>, Inr ngo))"

definition VerifyNGOKYC ::
  "time \<Rightarrow> NGOTransparencyPlatform \<Rightarrow> string \<Rightarrow> string \<Rightarrow> Certificate list
     \<Rightarrow> NGOTransparencyPlatform \<times> string option" where
  \<comment> \<open>the second component is the error, \<open>None\<close> for nil\<close>
  "VerifyNGOKYC now p ngoID authorityID certificates =
    (case map_of (NGOs p) ngoID of
       None \<Rightarrow> (p, Some ''NGO not found'')
     | Some ngo \<Rightarrow>
         (p\<lparr> KYCAuthorities := List.insert authorityID (KYCAuthorities p),
             NGOs := AList.update ngoID (NGO_VerifyKYC now ngo authorityID certificates) (NGOs p) \<rparr>,
          None))"

definition RegisterDonor ::
  "lib \<Rightarrow> time \<Rightarrow> NGOTransparencyPlatform \<Rightarrow> string \<Rightarrow> (string \<times> json) list
     \<Rightarrow> NGOTransparencyPlatform \<times> (string + Donor)" where
  "RegisterDonor L now p donorID kycData =
    (case map_of (Donors p) donorID of
       Some _ \<Rightarrow> (p, Inl ''donor already registered'')
     | None \<Rightarrow>
         let donor = NewDonor L now donorID kycData
         in (p\<lparr> Donors := AList.update donorID donor (Donors p) \<rparr>, Inr donor))"

definition VerifyDonorKYC ::
  "time \<Rightarrow> NGOTransparencyPlatform \<Rightarrow> string \<Rightarrow> string \<Rightarrow> string
     \<Rightarrow> NGOTransparencyPlatform \<times> string option" where
  "VerifyDonorKYC now p donorID authorityID verificationLevel =
    (case map_of (Donors p) donorID of
       None \<Rightarrow> (p, Some ''donor not found'')
     | Some donor \<Rightarrow>
         (p\<lparr> KYCAuthorities := List.insert authorityID (KYCAuthorities p),
             Donors := AList.update donorID
                         (Donor_VerifyKYC now donor authorityID verificationLevel) (Donors p) \<rparr>,
          None))"

definition RegisterAuditor ::
  "lib \<Rightarrow> time \<Rightarrow> NGOTransparencyPlatform \<Rightarrow> string \<Rightarrow> string \<Rightarrow> json \<Rightarrow> string list
     \<Rightarrow> NGOTransparencyPlatform \<times> (string + Auditor)" where
  "RegisterAuditor L now p auditorID name credentials specializations =
    (case map_of (Auditors p) auditorID of
       Some _ \<Rightarrow> (p, Inl ''auditor already registered'')
     | None \<Rightarrow>
         let auditor = NewAuditor L now auditorID name credentials specializations
         in (p\<lparr> Auditors := AList.update auditorID auditor (Auditors p) \<rparr>, Inr auditor))"

definition VerifyAuditorCredentials ::
  "time \<Rightarrow> NGOTransparencyPlatform \<Rightarrow> string \<Rightarrow> string \<Rightarrow> NGOTransparencyPlatform \<times> string option" where
  "VerifyAuditorCredentials now p auditorID verificationAuthority =
    (case map_of (Auditors p) auditorID of
       None \<Rightarrow> (p, Some ''auditor not found'')
     | Some auditor \<Rightarrow>
         (p\<lparr> Auditors := AList.update auditorID
                           (VerifyCredentials now auditor verificationAuthority) (Auditors p) \<rparr>,
          None))"

definition rupee_bytes :: string where
  \<comment> \<open>the seven bytes the source file has before \<open>%.2f\<close> in the limit message\<close>
  "rupee_bytes = [char_of (0xC3 :: nat), char_of (0xA2 :: nat), char_of (0xE2 :: nat),
                  char_of (0x80 :: nat), char_of (0x9A :: nat), char_of (0xC2 :: nat),
                  char_of (0xB9 :: nat)]"

definition ProcessDonation ::
  "lib \<Rightarrow> time \<Rightarrow> draws \<Rightarrow> NGOTransparencyPlatform \<Rightarrow> string \<Rightarrow> string \<Rightarrow> float64 \<Rightarrow> string
     \<Rightarrow> (NGOTransparencyPlatform \<times> (string + DonationOutput)) run option" where
  "ProcessDonation L now rnd p donorID ngoID amount paymentMethod =
    (case map_of (Donors p) donorID of
       None \<Rightarrow> Some (Returns (p, Inl ''donor not found''))
     | Some donor \<Rightarrow>
    (case map_of (NGOs p) ngoID of
       None \<Rightarrow> Some (Returns (p, Inl ''NGO not found''))
     | Some ngo \<Rightarrow>
       if \<not> KYCVerified donor then Some (Returns (p, Inl ''donor KYC not verified''))
       else if \<not> kyc_Verified (ngo_KYCData ngo) then Some (Returns (p, Inl ''NGO KYC not verified''))
       else
         let limitCheck = CheckDonationLimit L now donor amount in
         if \<not> CanDonate limitCheck
         then Some (Returns (p, Inl (''donation exceeds annual limit. Remaining: '' @ rupee_bytes
                                      @ Sprintf_f L 2 (RemainingLimit limitCheck))))
         else
           let platformFee = amount * PlatformFee (Stats p);
               netAmount = amount - platformFee;
               donation = NewDonationTransaction L now (txBytes rnd) (billBytes rnd) donorID ngoID
                            netAmount paymentMethod (DocumentHash (donor_KYCData donor))
           in (case NGO_ProcessDonation L now ngo donation of
                 None \<Rightarrow> None
               | Some (Panics msg) \<Rightarrow> Some (Panics msg)
               | Some (Returns (ngo, donation, Inl err)) \<Rightarrow>
                   Some (Returns (p\<lparr> NGOs := AList.update ngoID ngo (NGOs p) \<rparr>, Inl err))
               | Some (Returns (ngo, donation, Inr result)) \<Rightarrow>
                   (case AddDonation L donor donation of
                      Panics msg \<Rightarrow> Some (Panics msg)
                    | Returns donor \<Rightarrow>
                        let p = p\<lparr> NGOs := AList.update ngoID ngo (NGOs p),
                                    Donors := AList.update donorID donor (Donors p),
                                    Stats := (Stats p)\<lparr>
                                      TotalTransactions := TotalTransactions (Stats p) + 1,
                                      TotalDonations := TotalDonations (Stats p) + netAmount \<rparr> \<rparr>;
                            (p, result) =
                              (case Polygon p of
                                 None \<Rightarrow> (p, result)
                               | Some pg \<Rightarrow>
                                   let additionalData = [(''amount'', JNum netAmount),
                                                         (''platform_fee'', JNum platformFee)];
                                       (pg, anchor) = AnchorBlockHash L now rnd pg (BlockHash result)
                                                        ngoID ''donation'' additionalData
                                   in (p\<lparr> Polygon := Some pg \<rparr>,
                                       result\<lparr> pr_EBill := JObj
                                         [(''polygon_anchor'', AnchorResult_json anchor),
                                          (''original_ebill'', EBill_json (dt_EBill donation))] \<rparr>))
                        in Some (Returns (p, Inr \<lparr> do_success = Success result,
                                  do_block_hash = BlockHash result,
                                  do_transaction_id = pr_TransactionID result,
                                  do_block_index = BlockIndex result,
                                  do_e_bill = pr_EBill result,
                                  platform_fee = platformFee, net_amount = netAmount,
                                  gross_amount = amount \<rparr>))))))"

definition synthesized_invoice :: "time \<Rightarrow> InvoiceDetails" where
  \<comment> \<open>the \<open>invoiceDetails\<close> literal of \<open>ProcessExpenditure\<close>: the fields it does not
      name have their zero values\<close>
  "synthesized_invoice now =
    \<lparr> InvoiceNumber = ''INV-'' @ fmt_d (Unix now), GSTIN = ''27ABCDE1234F1Z5'',
      VendorName = ''Test Vendor'', VendorGSTIN = [], InvoiceDate = now, Documents = [],
      BankTransactionID = [], ChequeNumber = [] \<rparr>"

definition audit_and_admit ::
  "lib \<Rightarrow> time \<Rightarrow> draws \<Rightarrow> NGOTransparencyPlatform \<Rightarrow> string \<Rightarrow> NGO \<Rightarrow> string \<Rightarrow> Auditor
     \<Rightarrow> float64 \<Rightarrow> string \<Rightarrow> ExpenditureTransaction
     \<Rightarrow> (NGOTransparencyPlatform \<times> (string + ExpenditureOutput)) run option" where
  \<comment> \<open>\<open>ProcessExpenditure\<close> from the audit on, once the transaction is constructed\<close>
  "audit_and_admit L now rnd p ngoID ngo auditorID auditor amount category expenditure =
    (case AuditExpenditure L now auditor expenditure [] of
       Panics msg \<Rightarrow> Some (Panics msg)
     | Returns (auditor, auditResult) \<Rightarrow>
         let p = p\<lparr> Auditors := AList.update auditorID auditor (Auditors p) \<rparr>;
             shouldApprove = Contains (ToLower (Recommendation auditResult)) ''approve'';
             expenditure = ValidateByAuditor L now expenditure auditorID shouldApprove
                             (Recommendation auditResult) (Some (ar_ComplianceScore auditResult))
         in if \<not> shouldApprove
            then Some (Returns (p, Inl (''expenditure rejected by auditor: ''
                                         @ Recommendation auditResult)))
            else
              (case NGO_ProcessExpenditure L now ngo expenditure of
                 None \<Rightarrow> None
               | Some (Panics msg) \<Rightarrow> Some (Panics msg)
               | Some (Returns (ngo, Inl err)) \<Rightarrow>
                   Some (Returns (p\<lparr> NGOs := AList.update ngoID ngo (NGOs p) \<rparr>, Inl err))
               | Some (Returns (ngo, Inr result)) \<Rightarrow>
                   let p = p\<lparr> NGOs := AList.update ngoID ngo (NGOs p),
                               Stats := (Stats p)\<lparr>
                                 TotalTransactions := TotalTransactions (Stats p) + 1,
                                 TotalExpenditures := TotalExpenditures (Stats p) + amount \<rparr> \<rparr>;
                       p = (case Polygon p of
                              None \<Rightarrow> p
                            | Some pg \<Rightarrow>
                                let additionalData = [(''amount'', JNum amount),
                                                      (''category'', JStr category)]
                                in p\<lparr> Polygon := Some (fst (AnchorBlockHash L now rnd pg
                                        (BlockHash result) ngoID ''expenditure'' additionalData)) \<rparr>)
                   in Some (Returns (p, Inr \<lparr> eo_success = Success result,
                             eo_block_hash = BlockHash result,
                             eo_transaction_id = pr_TransactionID result,
                             eo_block_index = BlockIndex result,
                             audit_result = auditResult \<rparr>))))"

definition ProcessExpenditure ::
  "lib \<Rightarrow> time \<Rightarrow> draws \<Rightarrow> NGOTransparencyPlatform \<Rightarrow> string \<Rightarrow> (string \<times> json) list \<Rightarrow> string
     \<Rightarrow> (NGOTransparencyPlatform \<times> (string + ExpenditureOutput)) run option" where
  "ProcessExpenditure L now rnd p ngoID expenditureData auditorID =
    (case map_of (NGOs p) ngoID of
       None \<Rightarrow> Some (Returns (p, Inl ''NGO not found''))
     | Some ngo \<Rightarrow>
    (case map_of (Auditors p) auditorID of
       None \<Rightarrow> Some (Returns (p, Inl ''auditor not found''))
     | Some auditor \<Rightarrow>
       if \<not> Verified auditor then Some (Returns (p, Inl ''auditor not verified''))
       else
         (case map_of expenditureData ''amount'' of
            Some (JNum amount) \<Rightarrow>
              let category = (case map_of expenditureData ''category'' of
                                Some (JStr c) \<Rightarrow> c | _ \<Rightarrow> []);
                  description = (case map_of expenditureData ''description'' of
                                   Some (JStr d) \<Rightarrow> d | _ \<Rightarrow> []);
                  invoiceDetails = synthesized_invoice now;
                  expenditure = NewExpenditureTransaction now (txBytes rnd) ngoID amount category
                                  description invoiceDetails []
              in audit_and_admit L now rnd p ngoID ngo auditorID auditor amount category expenditure
          | _ \<Rightarrow> Some (Returns (p, Inl ''invalid amount'')))))"

definition trunc_int :: "float64 \<Rightarrow> int" where
  \<comment> \<open>the conversion \<open>int(x)\<close> of a float: towards zero\<close>
  "trunc_int x = (if x \<ge> 0 then \<lfloor>x\<rfloor> else \<lceil>x\<rceil>)"

definition GetPlatformStats :: "time \<Rightarrow> NGOTransparencyPlatform \<Rightarrow> PlatformStats" where
  "GetPlatformStats now p =
    (let platformAge = Sub now (ss_CreatedAt (Stats p));
         daysActive = trunc_int (Hours platformAge / 24);
         verifiedNGOs = int (length (filter (\<lambda>kv. kyc_Verified (ngo_KYCData (snd kv))) (NGOs p)));
         totalRating = sum_list (map (\<lambda>kv. Rating (snd kv)) (NGOs p));
         categoryList = remdups (map (\<lambda>kv. Category (snd kv)) (NGOs p));
         verifiedDonors = int (length (filter (\<lambda>kv. KYCVerified (snd kv)) (Donors p)));
         verifiedAuditors = int (length (filter (\<lambda>kv. Verified (snd kv)) (Auditors p)));
         averageRating = (if length (NGOs p) > 0 then totalRating / of_nat (length (NGOs p)) else 0)
     in \<lparr> TotalNGOs = int (length (NGOs p)), TotalDonors = int (length (Donors p)),
          TotalAuditors = int (length (Auditors p)),
          ps_TotalTransactions = TotalTransactions (Stats p),
          ps_TotalDonations = TotalDonations (Stats p),
          ps_TotalExpenditures = TotalExpenditures (Stats p),
          PlatformFeeCollected = TotalDonations (Stats p) * PlatformFee (Stats p),
          VerifiedNGOs = verifiedNGOs, VerifiedDonors = verifiedDonors,
          VerifiedAuditors = verifiedAuditors,
          ps_KYCAuthorities = int (length (KYCAuthorities p)),
          DaysActive = daysActive, AverageNGORating = averageRating,
          Categories = categoryList \<rparr>)"

section \<open>The specification's compliance clauses and the mining loop unrolled\<close>

definition weighted_sum :: "(bool \<times> float64) list \<Rightarrow> float64" where
  \<comment> \<open>the sum of the weights of the clauses that hold\<close>
  "weighted_sum cs = sum_list (map (\<lambda>(p, w). if p then w else 0) cs)"

definition compliance_clauses :: "time \<Rightarrow> ExpenditureTransaction \<Rightarrow> (bool \<times> float64) list" where
  \<comment> \<open>the specification's table of clauses: each predicate with its weight\<close>
  "compliance_clauses now et =
    (let inv = et_InvoiceDetails et in
     [(InvoiceNumber inv \<noteq> [], 20),
      (MatchString gstinRegex (GSTIN inv), 20),
      (VendorName inv \<noteq> [] \<and> VendorGSTIN inv \<noteq> [], 15),
      (BankTransactionID inv \<noteq> [] \<or> ChequeNumber inv \<noteq> [], 15),
      (Documents inv \<noteq> [], 15),
      (et_Attachments et \<noteq> [], 10),
      (now - InvoiceDate inv \<le> 90 * 24 * 3600 * 1000000000, 5)])"

definition mine_step :: "lib \<Rightarrow> Block \<Rightarrow> Block" where
  \<comment> \<open>one round of the loop of \<open>MineBlock\<close>\<close>
  "mine_step L b = (let b = b\<lparr> Nonce := Nonce b + 1 \<rparr> in b\<lparr> Hash := calculateHash L b \<rparr>)"

definition mineable :: "lib \<Rightarrow> nat \<Rightarrow> Block \<Rightarrow> bool" where
  \<comment> \<open>some number of rounds reaches a hash with the required prefix\<close>
  "mineable L d b = (\<exists>k. HasPrefix (Hash ((mine_step L ^^ k) b)) (Repeat ''0'' d))"

definition pow_solvable :: "lib \<Rightarrow> nat \<Rightarrow> bool" where
  \<comment> \<open>proof of work at difficulty \<open>d\<close> has a solution from every block\<close>
  "pow_solvable L d = (\<forall>b. mineable L d b)"

definition sha_ok :: "lib \<Rightarrow> bool" where
  \<comment> \<open>\<open>sha256.Sum256\<close> returns a \<open>[32]byte\<close>\<close>
  "sha_ok L = (\<forall>s. length (Sum256 L s) = 32)"

definition lowercase_hex64 :: "string \<Rightarrow> bool" where
  \<comment> \<open>the specification's "64-character lowercase-hex string"\<close>
  "lowercase_hex64 s = (length s = 64 \<and> list_all (\<lambda>c. c \<in> set ''0123456789abcdef'') s)"

section \<open>Example inputs\<close>

definition lib_zero :: lib where
  \<comment> \<open>a stand-in for the library whose every digest is 32 zero bytes\<close>
  "lib_zero = \<lparr> Sum256 = (\<lambda>s. replicate 32 0), Marshal = (\<lambda>j. []), Sprintf_f = (\<lambda>n x. []),
                Sprintf_v = (\<lambda>j. []), StdEncoding = (\<lambda>s. s), Year = (\<lambda>t. 2025) \<rparr>"


definition ex_invoice_full :: InvoiceDetails where
  "ex_invoice_full = \<lparr> InvoiceNumber = ''INV-2025-001'', GSTIN = ''27ABCDE1234F1Z5'',
     VendorName = ''Book Depot'', VendorGSTIN = ''29ABCDE1234F1Z5'',
     InvoiceDate = 1700000000000000000, Documents = [''invoice.pdf''],
     BankTransactionID = ''TXN123456'', ChequeNumber = [] \<rparr>"

definition ex_attachment :: Attachment where
  "ex_attachment = \<lparr> Filename = ''receipt.pdf'', att_Hash = ''abc123'', att_Type = ''receipt'',
     UploadedAt = 1700000000000000000 \<rparr>"

definition ex_invoice_empty :: InvoiceDetails where
  "ex_invoice_empty = \<lparr> InvoiceNumber = [], GSTIN = [], VendorName = [], VendorGSTIN = [],
     InvoiceDate = 0, Documents = [], BankTransactionID = [], ChequeNumber = [] \<rparr>"

definition ex_now :: time where
  "ex_now = 1700000000000000000"

definition ex_platform :: NGOTransparencyPlatform where
  "ex_platform =
    (let p = NewNGOTransparencyPlatform ex_now;
         p = fst (RegisterAuditor lib_zero ex_now p ''AUDITOR001'' ''PwC India'' JNull [''financial'']);
         p = fst (VerifyAuditorCredentials ex_now p ''AUDITOR001'' ''ICAI_AUTHORITY'');
         p = fst (RegisterNGO lib_zero ex_now p ''NGO001'' ''Save The Children'' ''REG/2020/123456''
                    ''Child Welfare'' [] [''0xNGOSigner1'', ''0xNGOSigner2'']);
         p = fst (VerifyNGOKYC ex_now p ''NGO001'' ''GOVERNMENT_AUTHORITY''
                    [\<lparr> cert_Type = ''80G'', cert_Number = ''80G/2020/12345'', ValidUntil = ''2025-12-31'' \<rparr>]);
         p = fst (RegisterDonor lib_zero ex_now p ''DONOR001'' []);
         p = fst (VerifyDonorKYC ex_now p ''DONOR001'' ''FINTECH_KYC_PROVIDER'' ''basic'')
     in p)"

definition ex_expenditure_data :: "(string \<times> json) list" where
  "ex_expenditure_data = [(''amount'', JNum 40000), (''category'', JStr ''Education''),
     (''description'', JStr ''School books and supplies for 50 children''),
     (''invoice_number'', JStr ''INV-2025-001''), (''gstin'', JStr ''29ABCDE1234F1Z5''),
     (''vendor_name'', JStr ''Book Depot''), (''vendor_gstin'', JStr ''29ABCDE1234F1Z5''),
     (''documents'', JStrings [''invoice.pdf'']), (''bank_transaction_id'', JStr ''TXN123456''),
     (''attachments'', JArr [JObj [(''filename'', JStr ''receipt.pdf'')]])]"

definition ex_draws :: draws where
  "ex_draws = \<lparr> txBytes = replicate 16 1, billBytes = replicate 12 2, anchorTxBytes = replicate 32 3,
                 anchorBlockOffset = 426887, anchorGasOffset = 2552 \<rparr>"

definition ex_ngo :: NGO where
  "ex_ngo = NGO_VerifyKYC ex_now
     (NewNGO lib_zero ex_now ''NGO001'' ''Save The Children'' ''REG/2020/123456''
        ''Child Welfare'' [] [''0xNGOSigner1'', ''0xNGOSigner2''])
     ''GOVERNMENT_AUTHORITY''
     [\<lparr> cert_Type = ''80G'', cert_Number = ''80G/2020/12345'', ValidUntil = ''2025-12-31'' \<rparr>]"

definition ex_auditor :: Auditor where
  "ex_auditor = VerifyCredentials ex_now
     (NewAuditor lib_zero ex_now ''AUDITOR001'' ''PwC India'' JNull [''financial'']) ''ICAI_AUTHORITY''"

definition ex_donor :: Donor where
  "ex_donor = Donor_VerifyKYC ex_now (NewDonor lib_zero ex_now ''DONOR001'' [])
     ''FINTECH_KYC_PROVIDER'' ''basic''"

definition ex_platform_demo :: NGOTransparencyPlatform where
  \<comment> \<open>the registrations of the repository's demo program: the auditor's id is \<open>AUD001\<close>\<close>
  "ex_platform_demo =
    (let p = NewNGOTransparencyPlatform ex_now;
         p = fst (RegisterAuditor lib_zero ex_now p ''AUD001'' ''PwC India'' JNull [''financial'']);
         p = fst (VerifyAuditorCredentials ex_now p ''AUD001'' ''ICAI_AUTHORITY'');
         p = fst (RegisterNGO lib_zero ex_now p ''NGO001'' ''Save The Children'' ''REG/2020/123456''
                    ''Child Welfare'' [] [''0xNGOSigner1'', ''0xNGOSigner2'']);
         p = fst (VerifyNGOKYC ex_now p ''NGO001'' ''GOVERNMENT_AUTHORITY''
                    [\<lparr> cert_Type = ''80G'', cert_Number = ''80G/2020/12345'', ValidUntil = ''2025-12-31'' \<rparr>])
     in p)"

definition ex_auditor_demo :: Auditor where
  "ex_auditor_demo = VerifyCredentials ex_now
     (NewAuditor lib_zero ex_now ''AUD001'' ''PwC India'' JNull [''financial'']) ''ICAI_AUTHORITY''"

definition block_amount :: "json \<Rightarrow> float64 option" where
  \<comment> \<open>\<open>blockData["amount"].(float64)\<close>, as \<open>sumBlockAmounts\<close> reads a block's payload\<close>
  "block_amount d = (case d of
       JObj kvs \<Rightarrow> (case map_of kvs ''amount'' of Some (JNum a) \<Rightarrow> Some a | _ \<Rightarrow> None)
     | _ \<Rightarrow> None)"

section \<open>Proofs\<close>

subsection \<open>Time windows and the GSTIN pattern\<close>

lemma Sub_le_iff:
  "minDuration \<le> b \<Longrightarrow> b < maxDuration \<Longrightarrow> (Sub t u \<le> b) = (t - u \<le> b)"
  by (auto simp: Sub_def)

lemma Sub_ge_iff:
  "minDuration < b \<Longrightarrow> b \<le> maxDuration \<Longrightarrow> (b \<le> Sub t u) = (b \<le> t - u)"
  by (auto simp: Sub_def)

lemma daysDiff_le_90:
  "(Hours (Since now d) / 24 \<le> 90) = (now - d \<le> 90 * 24 * 3600 * 1000000000)"
proof -
  have "(Hours (Since now d) / 24 \<le> 90) = (Since now d \<le> 7776000000000000)"
    unfolding Hours_def by (simp add: field_simps)
  also have "\<dots> = (now - d \<le> 7776000000000000)"
    unfolding Since_def by (rule Sub_le_iff) (simp_all add: minDuration_def maxDuration_def)
  finally show ?thesis by simp
qed

lemma MatchString_gstin_nonempty: "MatchString gstinRegex s \<Longrightarrow> s \<noteq> []"
  by (auto simp: MatchString_def gstinRegex_def eval_nat_numeral)

lemma VerifyGSTIN_iff: "VerifyGSTIN s = MatchString gstinRegex s"
  using MatchString_gstin_nonempty by (auto simp: VerifyGSTIN_def)

lemma VerifyGSTIN_example: "VerifyGSTIN ''27ABCDE1234F1Z5''"
  by (simp add: VerifyGSTIN_def MatchString_def gstinRegex_def is_digit_def is_upper_def
      is_digit19_def eval_nat_numeral)

subsection \<open>The compliance score\<close>

lemma if_add_weight: "(if p then s + k else s) = s + (if p then k else (0::rat))"
  by simp

lemma score_as_sum:
  "calculateComplianceScore now et =
     min ((if InvoiceNumber (et_InvoiceDetails et) \<noteq> [] then 20 else 0)
        + (if MatchString gstinRegex (GSTIN (et_InvoiceDetails et)) then 20 else 0)
        + (if VendorName (et_InvoiceDetails et) \<noteq> [] \<and> VendorGSTIN (et_InvoiceDetails et) \<noteq> []
           then 15 else 0)
        + (if BankTransactionID (et_InvoiceDetails et) \<noteq> [] \<or> ChequeNumber (et_InvoiceDetails et) \<noteq> []
           then 15 else 0)
        + (if Documents (et_InvoiceDetails et) \<noteq> [] then 15 else 0)
        + (if et_Attachments et \<noteq> [] then 10 else 0)
        + (if now - InvoiceDate (et_InvoiceDetails et) \<le> 90 * 24 * 3600 * 1000000000
           then 5 else 0)) 100"
  unfolding calculateComplianceScore_def Let_def daysDiff_le_90 VerifyGSTIN_iff length_greater_0_conv
  by (simp only: if_add_weight add_0)

lemma weighted_sum_clauses:
  "weighted_sum (compliance_clauses now et) =
       (if InvoiceNumber (et_InvoiceDetails et) \<noteq> [] then 20 else 0)
        + (if MatchString gstinRegex (GSTIN (et_InvoiceDetails et)) then 20 else 0)
        + (if VendorName (et_InvoiceDetails et) \<noteq> [] \<and> VendorGSTIN (et_InvoiceDetails et) \<noteq> []
           then 15 else 0)
        + (if BankTransactionID (et_InvoiceDetails et) \<noteq> [] \<or> ChequeNumber (et_InvoiceDetails et) \<noteq> []
           then 15 else 0)
        + (if Documents (et_InvoiceDetails et) \<noteq> [] then 15 else 0)
        + (if et_Attachments et \<noteq> [] then 10 else 0)
        + (if now - InvoiceDate (et_InvoiceDetails et) \<le> 90 * 24 * 3600 * 1000000000
           then 5 else 0)"
  unfolding weighted_sum_def compliance_clauses_def Let_def
  by (simp only: list.map sum_list.Cons sum_list.Nil prod.case add_0_right add.assoc)

lemma weighted_sum_le_100:
  "0 \<le> weighted_sum (compliance_clauses now et) \<and> weighted_sum (compliance_clauses now et) \<le> 100"
proof -
  have *: "\<And>p (w::rat). 0 \<le> w \<Longrightarrow> 0 \<le> (if p then w else 0) \<and> (if p then w else 0) \<le> w"
    by simp
  note b = *[of 20 "InvoiceNumber (et_InvoiceDetails et) \<noteq> []"]
    *[of 20 "MatchString gstinRegex (GSTIN (et_InvoiceDetails et))"]
    *[of 15 "VendorName (et_InvoiceDetails et) \<noteq> [] \<and> VendorGSTIN (et_InvoiceDetails et) \<noteq> []"]
    *[of 15 "BankTransactionID (et_InvoiceDetails et) \<noteq> [] \<or> ChequeNumber (et_InvoiceDetails et) \<noteq> []"]
    *[of 15 "Documents (et_InvoiceDetails et) \<noteq> []"]
    *[of 10 "et_Attachments et \<noteq> []"]
    *[of 5 "now - InvoiceDate (et_InvoiceDetails et) \<le> 90 * 24 * 3600 * 1000000000"]
  show ?thesis unfolding weighted_sum_clauses using b by linarith
qed

text \<open>
  Claim C8. For every expenditure transaction the compliance score is the sum of the
  weights of exactly the clauses that hold (invoice number present 20, GSTIN matching the
  pattern 20, vendor name and vendor GSTIN both present 15, bank transaction id or cheque
  number present 15, documents present 15, attachments present 10, invoice at most 90
  days old 5). The cap at 100 never cuts anything off; with every clause true the score is
  100 and with none true it is 0.
\<close>

theorem compliance_score_weighted_sum:
  "calculateComplianceScore now et = weighted_sum (compliance_clauses now et)
   \<and> calculateComplianceScore now et = min (weighted_sum (compliance_clauses now et)) 100
   \<and> 0 \<le> calculateComplianceScore now et \<and> calculateComplianceScore now et \<le> 100
   \<and> (list_all fst (compliance_clauses now et) \<longrightarrow> calculateComplianceScore now et = 100)
   \<and> (list_all (\<lambda>c. \<not> fst c) (compliance_clauses now et) \<longrightarrow> calculateComplianceScore now et = 0)"
proof -
  have s: "calculateComplianceScore now et = min (weighted_sum (compliance_clauses now et)) 100"
    unfolding score_as_sum weighted_sum_clauses ..
  with weighted_sum_le_100[of now et]
  have e: "calculateComplianceScore now et = weighted_sum (compliance_clauses now et)" by simp
  have a: "list_all fst (compliance_clauses now et) \<Longrightarrow> weighted_sum (compliance_clauses now et) = 100"
    unfolding weighted_sum_clauses by (simp add: compliance_clauses_def Let_def)
  have n: "list_all (\<lambda>c. \<not> fst c) (compliance_clauses now et)
           \<Longrightarrow> weighted_sum (compliance_clauses now et) = 0"
    unfolding weighted_sum_clauses by (simp add: compliance_clauses_def Let_def)
  from s e a n weighted_sum_le_100[of now et] show ?thesis by simp
qed

theorem compliance_score_weighted_sum_witness:
  "calculateComplianceScore ex_now
     (NewExpenditureTransaction ex_now [] ''NGO001'' 40000 ''Education'' ''books''
        ex_invoice_full [ex_attachment]) = 100
   \<and> calculateComplianceScore ex_now
     (NewExpenditureTransaction ex_now [] ''NGO001'' 40000 ''Education'' ''books''
        ex_invoice_empty []) = 0"
proof -
  have g: "MatchString gstinRegex ''27ABCDE1234F1Z5''"
    using VerifyGSTIN_example by (simp add: VerifyGSTIN_iff)
  have g0: "\<not> MatchString gstinRegex []"
    using MatchString_gstin_nonempty by blast
  have full: "list_all fst (compliance_clauses ex_now
     (NewExpenditureTransaction ex_now [] ''NGO001'' 40000 ''Education'' ''books''
        ex_invoice_full [ex_attachment]))"
    using g by (simp add: compliance_clauses_def NewExpenditureTransaction_def Let_def
        ex_invoice_full_def ex_now_def)
  have none: "list_all (\<lambda>c. \<not> fst c) (compliance_clauses ex_now
     (NewExpenditureTransaction ex_now [] ''NGO001'' 40000 ''Education'' ''books''
        ex_invoice_empty []))"
    using g0 by (simp add: compliance_clauses_def NewExpenditureTransaction_def Let_def
        ex_invoice_empty_def ex_now_def)
  from full none
    compliance_score_weighted_sum[of ex_now "NewExpenditureTransaction ex_now [] ''NGO001'' 40000
        ''Education'' ''books'' ex_invoice_full [ex_attachment]"]
    compliance_score_weighted_sum[of ex_now "NewExpenditureTransaction ex_now [] ''NGO001'' 40000
        ''Education'' ''books'' ex_invoice_empty []"]
  show ?thesis by blast
qed

subsection \<open>Proof stubs\<close>

lemma list_all2_replicate:
  "list_all2 (\<lambda>p c. p c) (replicate n P) s = (length s = n \<and> list_all P s)"
proof (induction n arbitrary: s)
  case 0
  then show ?case by auto
next
  case (Suc n)
  then show ?case by (cases s) auto
qed

lemma MatchString_hexPattern:
  "MatchString hexPattern s = (length s = 64 \<and> list_all is_hex_lower s)"
  unfolding MatchString_def hexPattern_def by (rule list_all2_replicate)

lemma nat_interval_cases_digit:
  "48 \<le> (n::nat) \<Longrightarrow> n \<le> 57 \<Longrightarrow> n \<in> {48, 49, 50, 51, 52, 53, 54, 55, 56, 57}"
  by (simp only: insert_iff empty_iff) arith

lemma nat_interval_cases_af:
  "97 \<le> (n::nat) \<Longrightarrow> n \<le> 102 \<Longrightarrow> n \<in> {97, 98, 99, 100, 101, 102}"
  by (simp only: insert_iff empty_iff) arith

lemma is_hex_lower_iff: "is_hex_lower c = (c \<in> set ''0123456789abcdef'')"
proof
  assume "is_hex_lower c"
  then have "(of_char c :: nat) \<in> {48, 49, 50, 51, 52, 53, 54, 55, 56, 57}
             \<or> (of_char c :: nat) \<in> {97, 98, 99, 100, 101, 102}"
    unfolding is_hex_lower_def is_digit_def
    using nat_interval_cases_digit nat_interval_cases_af by blast
  then have "(of_char c :: nat) \<in> of_char ` set ''0123456789abcdef''"
    by simp
  then obtain d where "d \<in> set ''0123456789abcdef''" "(of_char c :: nat) = of_char d"
    by blast
  then show "c \<in> set ''0123456789abcdef''"
    by (simp only: of_char_eq_iff)
next
  assume "c \<in> set ''0123456789abcdef''"
  then show "is_hex_lower c"
    by (auto simp: is_hex_lower_def is_digit_def)
qed

lemma hexdigit_lower: "is_hex_lower (hexdigit n)"
proof -
  have a: "list_all is_hex_lower ''0123456789abcdef''"
    by (simp add: is_hex_lower_def is_digit_def)
  have "n mod 16 < length ''0123456789abcdef''" by simp
  with a show ?thesis unfolding hexdigit_def list_all_length by blast
qed

lemma EncodeToString_hex: "list_all is_hex_lower (EncodeToString bs)"
  by (induction bs) (simp_all add: EncodeToString_def hex_byte_def hexdigit_lower)

lemma length_EncodeToString: "length (EncodeToString bs) = 2 * length bs"
  by (induction bs) (simp_all add: EncodeToString_def hex_byte_def)

lemma sha256_hex_matches: "sha_ok L \<Longrightarrow> MatchString hexPattern (sha256_hex L s)"
  by (simp add: MatchString_hexPattern sha256_hex_def length_EncodeToString EncodeToString_hex sha_ok_def)

lemma Hours_abs_gt_24:
  "(\<bar>Hours (Sub now ts)\<bar> > 24) = (\<bar>now - ts\<bar> > 24 * 3600 * 1000000000)"
proof -
  have "\<bar>Hours (Sub now ts)\<bar> = of_int \<bar>Sub now ts\<bar> / 3600000000000"
    unfolding Hours_def by simp
  moreover have "(24 < (of_int \<bar>Sub now ts\<bar> :: rat) / 3600000000000)
        = ((of_int 86400000000000 :: rat) < of_int \<bar>Sub now ts\<bar>)"
    by (simp add: less_divide_eq)
  ultimately have "(\<bar>Hours (Sub now ts)\<bar> > 24) = (\<bar>Sub now ts\<bar> > 86400000000000)"
    by (simp only: of_int_less_iff)
  also have "\<dots> = (\<bar>now - ts\<bar> > 86400000000000)"
    unfolding Sub_def minDuration_def maxDuration_def by (simp split: if_splits)
  finally show ?thesis by simp
qed

lemma MatchString_hex64: "MatchString hexPattern s = lowercase_hex64 s"
  unfolding MatchString_hexPattern lowercase_hex64_def
  by (simp only: is_hex_lower_iff[abs_def])

lemma VerifyProof_iff:
  "VerifyProof now proof amount ts \<longleftrightarrow>
      (\<exists>p. proof = Some p \<and> lowercase_hex64 (Commitment p) \<and> lowercase_hex64 (Nullifier p)
           \<and> lowercase_hex64 (Proof p))
      \<and> \<bar>now - ts\<bar> \<le> 24 * 3600 * 1000000000"
proof -
  have ne: "\<And>s. lowercase_hex64 s \<Longrightarrow> s \<noteq> []"
    by (auto simp: lowercase_hex64_def)
  show ?thesis
    using ne by (cases "proof") (auto simp: VerifyProof_def Let_def Hours_abs_gt_24 MatchString_hex64)
qed

lemma GenerateProof_hex:
  assumes "sha_ok L"
  shows "lowercase_hex64 (Commitment (GenerateProof L now0 donorID amount0 ts))"
    and "lowercase_hex64 (Nullifier (GenerateProof L now0 donorID amount0 ts))"
    and "lowercase_hex64 (Proof (GenerateProof L now0 donorID amount0 ts))"
  using sha256_hex_matches[OF assms] by (simp_all add: GenerateProof_def Let_def MatchString_hex64)

text \<open>
  Claim C9. \<open>VerifyProof\<close> returns true exactly when the proof is present, its
  commitment, nullifier and proof are each a 64-character lowercase-hex string, and the
  timestamp is at most 24 hours away from the clock; and a proof made by
  \<open>GenerateProof\<close> verifies whenever its timestamp is within 24 hours of the
  verification time (SHA-256 digests being 32 bytes long).
\<close>

theorem VerifyProof_iff_and_roundtrip:
  "(VerifyProof now proof amount ts \<longleftrightarrow>
      (\<exists>p. proof = Some p \<and> lowercase_hex64 (Commitment p) \<and> lowercase_hex64 (Nullifier p)
           \<and> lowercase_hex64 (Proof p))
      \<and> \<bar>now - ts\<bar> \<le> 24 * 3600 * 1000000000)
   \<and> (sha_ok L \<and> \<bar>now - ts\<bar> \<le> 24 * 3600 * 1000000000
        \<longrightarrow> VerifyProof now (Some (GenerateProof L now0 donorID amount0 ts)) amount ts)"
  using GenerateProof_hex[of L now0 donorID amount0 ts]
  by (simp only: VerifyProof_iff) blast

lemma sha_ok_lib_zero: "sha_ok lib_zero"
  by (simp add: sha_ok_def lib_zero_def)

theorem VerifyProof_iff_and_roundtrip_witness:
  "VerifyProof (ex_now + 3600000000000)
     (Some (GenerateProof lib_zero ex_now ''DONOR001'' 49500 ex_now)) 49500 ex_now"
proof -
  have "\<bar>(ex_now + 3600000000000) - ex_now\<bar> \<le> 24 * 3600 * 1000000000"
    by simp
  with sha_ok_lib_zero
    VerifyProof_iff_and_roundtrip[of "ex_now + 3600000000000" None 49500 ex_now lib_zero
      ex_now "''DONOR001''" 49500]
  show ?thesis by blast
qed

subsection \<open>The orchestrator constructs every expenditure from a synthesized invoice\<close>

lemma synthesized_score:
  "calculateComplianceScore now
     (NewExpenditureTransaction now rb ngoID amount category description (synthesized_invoice now) []) = 45"
proof -
  have g: "MatchString gstinRegex ''27ABCDE1234F1Z5''"
    using VerifyGSTIN_example by (simp add: VerifyGSTIN_iff)
  show ?thesis
    unfolding score_as_sum using g
    by (simp add: NewExpenditureTransaction_def synthesized_invoice_def Let_def)
qed

lemma NewExpenditureTransaction_fields [simp]:
  "et_InvoiceDetails (NewExpenditureTransaction now rb n a c d iv atts) = iv"
  "et_Attachments (NewExpenditureTransaction now rb n a c d iv atts) = atts"
  "et_Amount (NewExpenditureTransaction now rb n a c d iv atts) = a"
  "et_TransactionID (NewExpenditureTransaction now rb n a c d iv atts) = EncodeToString rb"
  "et_AuditorValidation (NewExpenditureTransaction now rb n a c d iv atts) = None"
  "et_Status (NewExpenditureTransaction now rb n a c d iv atts) = ''pending_validation''"
  "et_Category (NewExpenditureTransaction now rb n a c d iv atts) = c"
  "et_Description (NewExpenditureTransaction now rb n a c d iv atts) = d"
  "et_Timestamp (NewExpenditureTransaction now rb n a c d iv atts) = now"
  by (simp_all add: NewExpenditureTransaction_def Let_def)

lemma calculateComplianceScore_upd [simp]:
  "calculateComplianceScore now (et\<lparr> ComplianceScore := x \<rparr>) = calculateComplianceScore now et"
  by (simp add: score_as_sum)

lemma NewExpenditureTransaction_score:
  "ComplianceScore (NewExpenditureTransaction now rb n a c d iv atts)
     = calculateComplianceScore now (NewExpenditureTransaction now rb n a c d iv atts)"
  by (simp add: NewExpenditureTransaction_def Let_def score_as_sum)

text \<open>
  Claim C2. Whatever invoice, document, attachment or payment-proof fields the caller puts
  in the expenditure data, every call of the orchestrator's \<open>ProcessExpenditure\<close> that
  gets as far as constructing the transaction (NGO and auditor registered, auditor
  verified, the amount a \<open>float64\<close>) constructs it from the synthesized invoice (an
  invoice number starting with \<open>INV-\<close>, GSTIN \<open>27ABCDE1234F1Z5\<close>, vendor
  \<open>Test Vendor\<close>, no vendor GSTIN, invoice date now, no documents, no bank transaction
  id, no cheque number) and no attachments, and hands that transaction to the audit; its
  compliance score is exactly 45.
\<close>

theorem orchestrator_expenditure_synthesized:
  assumes "map_of (NGOs p) ngoID = Some ngo"
    and "map_of (Auditors p) auditorID = Some auditor"
    and "Verified auditor"
    and "map_of expenditureData ''amount'' = Some (JNum amount)"
  shows "\<exists>category description tx.
      tx = NewExpenditureTransaction now (txBytes rnd) ngoID amount category description
             (synthesized_invoice now) []
    \<and> ProcessExpenditure L now rnd p ngoID expenditureData auditorID
        = audit_and_admit L now rnd p ngoID ngo auditorID auditor amount category tx
    \<and> HasPrefix (InvoiceNumber (et_InvoiceDetails tx)) ''INV-''
    \<and> GSTIN (et_InvoiceDetails tx) = ''27ABCDE1234F1Z5''
    \<and> VendorName (et_InvoiceDetails tx) = ''Test Vendor''
    \<and> VendorGSTIN (et_InvoiceDetails tx) = []
    \<and> InvoiceDate (et_InvoiceDetails tx) = now
    \<and> Documents (et_InvoiceDetails tx) = []
    \<and> BankTransactionID (et_InvoiceDetails tx) = []
    \<and> ChequeNumber (et_InvoiceDetails tx) = []
    \<and> et_Attachments tx = []
    \<and> ComplianceScore tx = 45"
proof -
  define category where "category = (case map_of expenditureData ''category'' of
                                Some (JStr c) \<Rightarrow> c | _ \<Rightarrow> [])"
  define description where "description = (case map_of expenditureData ''description'' of
                                   Some (JStr d) \<Rightarrow> d | _ \<Rightarrow> [])"
  define tx where "tx = NewExpenditureTransaction now (txBytes rnd) ngoID amount category description
             (synthesized_invoice now) []"
  have run: "ProcessExpenditure L now rnd p ngoID expenditureData auditorID
        = audit_and_admit L now rnd p ngoID ngo auditorID auditor amount category tx"
    using assms by (simp add: ProcessExpenditure_def Let_def category_def description_def tx_def)
  have score: "ComplianceScore tx = 45"
    unfolding tx_def NewExpenditureTransaction_score by (rule synthesized_score)
  have inv: "et_InvoiceDetails tx = synthesized_invoice now" "et_Attachments tx = []"
    by (simp_all add: tx_def)
  from run score inv tx_def show ?thesis
    by (intro exI[of _ category] exI[of _ description] exI[of _ tx])
       (simp add: synthesized_invoice_def HasPrefix_def)
qed

lemma ex_platform_eq:
  "ex_platform = \<lparr> NGOs = [(''NGO001'', ex_ngo)], Donors = [(''DONOR001'', ex_donor)],
      Auditors = [(''AUDITOR001'', ex_auditor)], Polygon = None,
      Stats = \<lparr> TotalTransactions = 0, TotalDonations = 0, TotalExpenditures = 0,
                PlatformFee = 1 / 100, ss_CreatedAt = ex_now \<rparr>,
      KYCAuthorities = [''FINTECH_KYC_PROVIDER'', ''GOVERNMENT_AUTHORITY''] \<rparr>"
  by (simp add: ex_platform_def Let_def NewNGOTransparencyPlatform_def RegisterAuditor_def
      VerifyAuditorCredentials_def RegisterNGO_def VerifyNGOKYC_def RegisterDonor_def
      VerifyDonorKYC_def ex_ngo_def ex_auditor_def ex_donor_def)

theorem orchestrator_expenditure_synthesized_witness:
  "\<exists>category description tx.
      tx = NewExpenditureTransaction ex_now (txBytes ex_draws) ''NGO001'' 40000 category description
             (synthesized_invoice ex_now) []
    \<and> ProcessExpenditure lib_zero ex_now ex_draws ex_platform ''NGO001'' ex_expenditure_data ''AUDITOR001''
        = audit_and_admit lib_zero ex_now ex_draws ex_platform ''NGO001'' ex_ngo ''AUDITOR001''
            ex_auditor 40000 category tx
    \<and> HasPrefix (InvoiceNumber (et_InvoiceDetails tx)) ''INV-''
    \<and> GSTIN (et_InvoiceDetails tx) = ''27ABCDE1234F1Z5''
    \<and> VendorName (et_InvoiceDetails tx) = ''Test Vendor''
    \<and> VendorGSTIN (et_InvoiceDetails tx) = []
    \<and> InvoiceDate (et_InvoiceDetails tx) = ex_now
    \<and> Documents (et_InvoiceDetails tx) = []
    \<and> BankTransactionID (et_InvoiceDetails tx) = []
    \<and> ChequeNumber (et_InvoiceDetails tx) = []
    \<and> et_Attachments tx = []
    \<and> ComplianceScore tx = 45"
proof (rule orchestrator_expenditure_synthesized)
  show "map_of (NGOs ex_platform) ''NGO001'' = Some ex_ngo"
    by (simp add: ex_platform_eq)
  show "map_of (Auditors ex_platform) ''AUDITOR001'' = Some ex_auditor"
    by (simp add: ex_platform_eq)
  show "Verified ex_auditor"
    by (simp add: ex_auditor_def VerifyCredentials_def)
  show "map_of ex_expenditure_data ''amount'' = Some (JNum 40000)"
    by (simp add: ex_expenditure_data_def)
qed

subsection \<open>Mining and appending\<close>

lemma calculateHash_upd [simp]:
  "calculateHash L (b\<lparr> Hash := h \<rparr>) = calculateHash L b"
  "calculateHash L (b\<lparr> Validated := v \<rparr>) = calculateHash L b"
  "calculateHash L (b\<lparr> Validators := vs \<rparr>) = calculateHash L b"
  by (simp_all add: calculateHash_def hash_record_def)

lemma MineBlock_unfold:
  "MineBlock L d b = (if HasPrefix (Hash b) (Repeat ''0'' d) then Some b else MineBlock L d (mine_step L b))"
  by (subst MineBlock.simps) (simp add: mine_step_def)

lemma mine_step_fields [simp]:
  "Index (mine_step L b) = Index b" "b_Timestamp (mine_step L b) = b_Timestamp b"
  "Data (mine_step L b) = Data b" "PreviousHash (mine_step L b) = PreviousHash b"
  "BlockType (mine_step L b) = BlockType b" "Validated (mine_step L b) = Validated b"
  "Validators (mine_step L b) = Validators b" "MerkleRoot (mine_step L b) = MerkleRoot b"
  "Hash (mine_step L b) = calculateHash L (mine_step L b)"
  by (simp_all add: mine_step_def Let_def)

lemma funpow_mine_fields [simp]:
  "Index ((mine_step L ^^ k) b) = Index b" "b_Timestamp ((mine_step L ^^ k) b) = b_Timestamp b"
  "Data ((mine_step L ^^ k) b) = Data b" "PreviousHash ((mine_step L ^^ k) b) = PreviousHash b"
  "BlockType ((mine_step L ^^ k) b) = BlockType b" "Validated ((mine_step L ^^ k) b) = Validated b"
  "Validators ((mine_step L ^^ k) b) = Validators b" "MerkleRoot ((mine_step L ^^ k) b) = MerkleRoot b"
  by (induction k) simp_all

lemma funpow_mine_hash:
  "Hash b = calculateHash L b \<or> 0 < k \<Longrightarrow>
   Hash ((mine_step L ^^ k) b) = calculateHash L ((mine_step L ^^ k) b)"
  by (cases k) auto

lemma MineBlock_funpow:
  "HasPrefix (Hash ((mine_step L ^^ k) b)) (Repeat ''0'' d) \<Longrightarrow>
   \<exists>j\<le>k. MineBlock L d b = Some ((mine_step L ^^ j) b)
          \<and> HasPrefix (Hash ((mine_step L ^^ j) b)) (Repeat ''0'' d)"
proof (induction k arbitrary: b)
  case 0
  then show ?case by (subst MineBlock_unfold) simp
next
  case (Suc k)
  show ?case
  proof (cases "HasPrefix (Hash b) (Repeat ''0'' d)")
    case True
    then have "MineBlock L d b = Some ((mine_step L ^^ 0) b)"
      by (subst MineBlock_unfold) simp
    with True show ?thesis by (intro exI[of _ 0]) simp
  next
    case False
    from Suc.prems have "HasPrefix (Hash ((mine_step L ^^ k) (mine_step L b))) (Repeat ''0'' d)"
      by (simp add: funpow_swap1)
    from Suc.IH[OF this] obtain j where j: "j \<le> k"
      "MineBlock L d (mine_step L b) = Some ((mine_step L ^^ j) (mine_step L b))"
      "HasPrefix (Hash ((mine_step L ^^ j) (mine_step L b))) (Repeat ''0'' d)" by blast
    from False j(2) have "MineBlock L d b = Some ((mine_step L ^^ Suc j) b)"
      by (subst MineBlock_unfold) (simp add: funpow_swap1)
    with j show ?thesis by (intro exI[of _ "Suc j"]) (simp add: funpow_swap1)
  qed
qed

lemma MineBlock_Some_funpow:
  assumes "MineBlock L d b = Some b'"
  shows "\<exists>k. b' = (mine_step L ^^ k) b \<and> HasPrefix (Hash b') (Repeat ''0'' d)
             \<and> (k = 0 \<longrightarrow> HasPrefix (Hash b) (Repeat ''0'' d))
             \<and> (0 < k \<longrightarrow> \<not> HasPrefix (Hash b) (Repeat ''0'' d))"
proof (rule MineBlock.raw_induct
    [where P = "\<lambda>L d b b'. \<exists>k. b' = (mine_step L ^^ k) b \<and> HasPrefix (Hash b') (Repeat ''0'' d)
             \<and> (k = 0 \<longrightarrow> HasPrefix (Hash b) (Repeat ''0'' d))
             \<and> (0 < k \<longrightarrow> \<not> HasPrefix (Hash b) (Repeat ''0'' d))",
      OF _ assms])
  fix f :: "lib \<Rightarrow> nat \<Rightarrow> Block \<Rightarrow> Block option" and L d b b'
  assume IH: "\<And>L d b y. f L d b = Some y \<Longrightarrow>
                 \<exists>k. y = (mine_step L ^^ k) b \<and> HasPrefix (Hash y) (Repeat ''0'' d)
             \<and> (k = 0 \<longrightarrow> HasPrefix (Hash b) (Repeat ''0'' d))
             \<and> (0 < k \<longrightarrow> \<not> HasPrefix (Hash b) (Repeat ''0'' d))"
    and eq: "(if HasPrefix (Hash b) (Repeat ''0'' d) then Some b
              else f L d (let b = b\<lparr>Nonce := Nonce b + 1\<rparr> in b\<lparr>Hash := calculateHash L b\<rparr>)) = Some b'"
  show "\<exists>k. b' = (mine_step L ^^ k) b \<and> HasPrefix (Hash b') (Repeat ''0'' d)
             \<and> (k = 0 \<longrightarrow> HasPrefix (Hash b) (Repeat ''0'' d))
             \<and> (0 < k \<longrightarrow> \<not> HasPrefix (Hash b) (Repeat ''0'' d))"
  proof (cases "HasPrefix (Hash b) (Repeat ''0'' d)")
    case True
    with eq have "b' = b" by simp
    with True show ?thesis by (intro exI[of _ 0]) simp
  next
    case False
    with eq have "f L d (mine_step L b) = Some b'" by (simp add: mine_step_def)
    from IH[OF this] obtain k where "b' = (mine_step L ^^ k) (mine_step L b)"
      "HasPrefix (Hash b') (Repeat ''0'' d)" by blast
    with False show ?thesis by (intro exI[of _ "Suc k"]) (simp add: funpow_swap1)
  qed
qed

lemma mineable_MineBlock:
  assumes "mineable L d b"
  shows "\<exists>k. MineBlock L d b = Some ((mine_step L ^^ k) b)
             \<and> HasPrefix (Hash ((mine_step L ^^ k) b)) (Repeat ''0'' d)"
  using assms MineBlock_funpow unfolding mineable_def by blast

lemma AddBlock_mined:
  assumes "Chain bc \<noteq> []"
    and "MineBlock L (Difficulty bc)
           (b\<lparr> PreviousHash := Hash (last (Chain bc)), Index := int (length (Chain bc)) \<rparr>) = Some b'"
  shows "AddBlock L bc b =
           (if Hash b' = calculateHash L b'
            then Some (Returns (bc\<lparr> Chain := Chain bc @ [b'] \<rparr>, b', True))
            else Some (Returns (bc, b', False)))"
proof -
  from MineBlock_Some_funpow[OF assms(2)] have
    "PreviousHash b' = Hash (last (Chain bc))" "HasPrefix (Hash b') (Repeat ''0'' (Difficulty bc))"
    by auto
  with assms show ?thesis
    by (auto simp: AddBlock_def Let_def validateBlockInternal_def)
qed

lemma AddBlock_consistent:
  assumes "Chain bc \<noteq> []"
    and "Hash b = calculateHash L b"
    and "PreviousHash b = Hash (last (Chain bc))"
    and "Index b = int (length (Chain bc))"
    and "mineable L (Difficulty bc) b"
  shows "\<exists>k. AddBlock L bc b = Some (Returns (bc\<lparr> Chain := Chain bc @ [(mine_step L ^^ k) b] \<rparr>,
                                              (mine_step L ^^ k) b, True))
            \<and> HasPrefix (Hash ((mine_step L ^^ k) b)) (Repeat ''0'' (Difficulty bc))"
proof -
  have same: "b\<lparr> PreviousHash := Hash (last (Chain bc)), Index := int (length (Chain bc)) \<rparr> = b"
    using assms(3,4) by simp
  from mineable_MineBlock[OF assms(5)] obtain k where
    k: "MineBlock L (Difficulty bc) b = Some ((mine_step L ^^ k) b)"
       "HasPrefix (Hash ((mine_step L ^^ k) b)) (Repeat ''0'' (Difficulty bc))" by blast
  have "Hash ((mine_step L ^^ k) b) = calculateHash L ((mine_step L ^^ k) b)"
    using assms(2) by (simp add: funpow_mine_hash)
  with AddBlock_mined[OF assms(1), of L b "(mine_step L ^^ k) b"] k same
  show ?thesis by auto
qed

lemma HasPrefix_zeros: "d \<le> n \<Longrightarrow> HasPrefix (replicate n CHR ''0'') (Repeat ''0'' d)"
proof -
  assume "d \<le> n"
  then have "replicate n CHR ''0'' = replicate d CHR ''0'' @ replicate (n - d) CHR ''0''"
    by (simp add: replicate_add[symmetric])
  moreover have "Repeat ''0'' d = replicate d CHR ''0''"
    by (induction d) (simp_all add: Repeat_def)
  ultimately show ?thesis by (simp add: HasPrefix_def)
qed

lemma hex_byte_zero: "hex_byte 0 = ''00''"
  by (simp add: hex_byte_def hexdigit_def)

lemma EncodeToString_zeros: "EncodeToString (replicate n 0) = replicate (2 * n) CHR ''0''"
  by (induction n) (simp_all add: EncodeToString_def hex_byte_zero)

lemma sha256_hex_lib_zero: "sha256_hex lib_zero s = replicate 64 CHR ''0''"
  by (simp add: sha256_hex_def lib_zero_def EncodeToString_zeros)

lemma pow_solvable_lib_zero: "d \<le> 64 \<Longrightarrow> pow_solvable lib_zero d"
  unfolding pow_solvable_def mineable_def
proof
  fix b assume "d \<le> 64"
  then have "HasPrefix (Hash ((mine_step lib_zero ^^ 1) b)) (Repeat ''0'' d)"
    by (simp add: calculateHash_def sha256_hex_lib_zero HasPrefix_zeros)
  then show "\<exists>k. HasPrefix (Hash ((mine_step lib_zero ^^ k) b)) (Repeat ''0'' d)" ..
qed

subsection \<open>Expenditures: audit, rejection and admission\<close>

lemma NewBlock_fields [simp]:
  "Index (NewBlock L now i ts d ph bt) = i"
  "Data (NewBlock L now i ts d ph bt) = d"
  "PreviousHash (NewBlock L now i ts d ph bt) = ph"
  "Validated (NewBlock L now i ts d ph bt) = False"
  "Validators (NewBlock L now i ts d ph bt) = []"
  "Nonce (NewBlock L now i ts d ph bt) = 0"
  "Hash (NewBlock L now i ts d ph bt) = calculateHash L (NewBlock L now i ts d ph bt)"
  by (simp_all add: NewBlock_def Let_def calculateHash_def hash_record_def)

lemma AddValidator_fields [simp]:
  "Index (AddValidator now b i s t) = Index b"
  "Data (AddValidator now b i s t) = Data b"
  "PreviousHash (AddValidator now b i s t) = PreviousHash b"
  "Validated (AddValidator now b i s t) = Validated b"
  "Hash (AddValidator now b i s t) = Hash b"
  "calculateHash L (AddValidator now b i s t) = calculateHash L b"
  by (simp_all add: AddValidator_def Let_def)

lemma Validate_fields [simp]:
  "Index (Validate b) = Index b"
  "Data (Validate b) = Data b"
  "PreviousHash (Validate b) = PreviousHash b"
  "Validated (Validate b) = True"
  "Hash (Validate b) = Hash b"
  "calculateHash L (Validate b) = calculateHash L b"
  by (simp_all add: Validate_def)

lemma generateRecommendation_cases:
  "generateRecommendation tx \<in> {''Approve - Excellent compliance'',
      ''Approve - Good compliance with minor observations'',
      ''Approve with conditions - Address noted observations'',
      ''Conditional approval - Requires additional documentation'',
      ''Review required - Significant compliance gaps'',
      ''Reject - Insufficient compliance and documentation''}"
  by (simp add: generateRecommendation_def Let_def)

lemma approve_texts:
  "Contains (ToLower ''Approve - Excellent compliance'') ''approve''"
  "Contains (ToLower ''Approve - Good compliance with minor observations'') ''approve''"
  "Contains (ToLower ''Approve with conditions - Address noted observations'') ''approve''"
  "\<not> Contains (ToLower ''Conditional approval - Requires additional documentation'') ''approve''"
  "\<not> Contains (ToLower ''Review required - Significant compliance gaps'') ''approve''"
  "\<not> Contains (ToLower ''Reject - Insufficient compliance and documentation'') ''approve''"
  by code_simp+

lemma approve_iff_prefix:
  "Contains (ToLower (generateRecommendation tx)) ''approve''
     = HasPrefix (generateRecommendation tx) ''Approve''"
  using approve_texts
  by (simp add: generateRecommendation_def Let_def HasPrefix_def)

lemma AuditExpenditure_long_id:
  assumes "8 \<le> length (AuditorID a)"
  shows "\<exists>res. AuditExpenditure L now a tx notes
                 = Returns (a\<lparr> AuditHistory := AuditHistory a @ [res] \<rparr>, res)
             \<and> Recommendation res = generateRecommendation tx
             \<and> ar_ComplianceScore res = ComplianceScore tx
             \<and> ar_AuditorID res = AuditorID a"
  using assms by (simp add: AuditExpenditure_def Let_def)

lemma AuditExpenditure_short_id:
  "length (AuditorID a) < 8 \<Longrightarrow> AuditExpenditure L now a tx notes = Panics ''slice bounds out of range [:8]''"
  by (simp add: AuditExpenditure_def)

lemma audit_and_admit_short_id:
  "length (AuditorID auditor) < 8 \<Longrightarrow>
   audit_and_admit L now rnd p ngoID ngo auditorID auditor amount category tx
     = Some (Panics ''slice bounds out of range [:8]'')"
  by (simp add: audit_and_admit_def AuditExpenditure_short_id)

lemma audit_and_admit_rejects:
  assumes "8 \<le> length (AuditorID auditor)"
    and "\<not> HasPrefix (generateRecommendation tx) ''Approve''"
  shows "\<exists>res. audit_and_admit L now rnd p ngoID ngo auditorID auditor amount category tx
           = Some (Returns (p\<lparr> Auditors := AList.update auditorID
                                  (auditor\<lparr> AuditHistory := AuditHistory auditor @ [res] \<rparr>) (Auditors p) \<rparr>,
                            Inl (''expenditure rejected by auditor: '' @ generateRecommendation tx)))
         \<and> Recommendation res = generateRecommendation tx
         \<and> ar_ComplianceScore res = ComplianceScore tx"
proof -
  from AuditExpenditure_long_id[OF assms(1), of L now tx "[]"] obtain res where
    res: "AuditExpenditure L now auditor tx [] = Returns (auditor\<lparr> AuditHistory := AuditHistory auditor @ [res] \<rparr>, res)"
      "Recommendation res = generateRecommendation tx" "ar_ComplianceScore res = ComplianceScore tx"
    by blast
  from assms(2) have "\<not> Contains (ToLower (Recommendation res)) ''approve''"
    by (simp add: res(2) approve_iff_prefix)
  with res show ?thesis
    by (intro exI[of _ res]) (simp add: audit_and_admit_def Let_def)
qed

lemma recommendation_buckets:
  "60 \<le> ComplianceScore tx \<Longrightarrow> ComplianceScore tx < 70 \<Longrightarrow>
     generateRecommendation tx = ''Conditional approval - Requires additional documentation''"
  "50 \<le> ComplianceScore tx \<Longrightarrow> ComplianceScore tx < 60 \<Longrightarrow>
     generateRecommendation tx = ''Review required - Significant compliance gaps''"
  "ComplianceScore tx < 50 \<Longrightarrow>
     generateRecommendation tx = ''Reject - Insufficient compliance and documentation''"
  "90 \<le> ComplianceScore tx \<Longrightarrow> generateRecommendation tx = ''Approve - Excellent compliance''"
  by (simp_all add: generateRecommendation_def Let_def)

text \<open>
  From the audit on, and for an auditor whose id has eight bytes or more, the orchestrator
  behaves as claim C3 says: the recommendation counts as approval exactly when it starts
  with \<open>Approve\<close>; otherwise the call returns the error that carries the
  recommendation and leaves the NGOs and the counters as they were; and the two buckets
  from 50 to 69 are rejections.
\<close>

lemma orchestrator_rejection_long_id:
  assumes "8 \<le> length (AuditorID auditor)"
  shows "Contains (ToLower (generateRecommendation tx)) ''approve''
           = HasPrefix (generateRecommendation tx) ''Approve''"
    and "\<not> HasPrefix (generateRecommendation tx) ''Approve'' \<Longrightarrow>
         \<exists>p'. audit_and_admit L now rnd p ngoID ngo auditorID auditor amount category tx
                = Some (Returns (p', Inl (''expenditure rejected by auditor: '' @ generateRecommendation tx)))
              \<and> NGOs p' = NGOs p \<and> Stats p' = Stats p"
    and "50 \<le> ComplianceScore tx \<Longrightarrow> ComplianceScore tx < 70 \<Longrightarrow>
         \<not> HasPrefix (generateRecommendation tx) ''Approve''"
proof -
  show "Contains (ToLower (generateRecommendation tx)) ''approve''
           = HasPrefix (generateRecommendation tx) ''Approve''"
    by (rule approve_iff_prefix)
  show "\<exists>p'. audit_and_admit L now rnd p ngoID ngo auditorID auditor amount category tx
                = Some (Returns (p', Inl (''expenditure rejected by auditor: '' @ generateRecommendation tx)))
              \<and> NGOs p' = NGOs p \<and> Stats p' = Stats p"
    if "\<not> HasPrefix (generateRecommendation tx) ''Approve''"
    using audit_and_admit_rejects[OF assms that, of L now rnd p ngoID ngo auditorID amount category]
    by auto
  show "\<not> HasPrefix (generateRecommendation tx) ''Approve''"
    if "50 \<le> ComplianceScore tx" "ComplianceScore tx < 70"
  proof (cases "60 \<le> ComplianceScore tx")
    case True
    with that show ?thesis by (simp add: recommendation_buckets(1) HasPrefix_def)
  next
    case False
    with that show ?thesis by (simp add: recommendation_buckets(2) HasPrefix_def)
  qed
qed

lemma GetLatestBlock_Some: "Chain bc \<noteq> [] \<Longrightarrow> GetLatestBlock bc = Some (last (Chain bc))"
  by (simp add: GetLatestBlock_def)

lemma NGO_ProcessExpenditure_admits:
  assumes "et_AuditorValidation tx = Some v" and "IsValid v"
    and "VerifyGSTIN (GSTIN (et_InvoiceDetails tx))" and "60 \<le> ComplianceScore tx"
    and "Chain (ExpenditureBlockchain ngo) \<noteq> []"
    and "pow_solvable L (Difficulty (ExpenditureBlockchain ngo))"
  shows "\<exists>blk r. NGO_ProcessExpenditure L now ngo tx
           = Some (Returns (ngo\<lparr> ExpenditureBlockchain :=
                                   (ExpenditureBlockchain ngo)\<lparr> Chain := Chain (ExpenditureBlockchain ngo) @ [blk] \<rparr>,
                                 TotalExpenditureReported := TotalExpenditureReported ngo + et_Amount tx \<rparr>,
                            Inr r))
         \<and> Success r \<and> BlockHash r = Hash blk \<and> pr_TransactionID r = et_TransactionID tx
         \<and> BlockIndex r = int (length (Chain (ExpenditureBlockchain ngo)))
         \<and> Index blk = int (length (Chain (ExpenditureBlockchain ngo)))
         \<and> Validated blk \<and> Hash blk = calculateHash L blk
         \<and> PreviousHash blk = Hash (last (Chain (ExpenditureBlockchain ngo)))
         \<and> HasPrefix (Hash blk) (Repeat ''0'' (Difficulty (ExpenditureBlockchain ngo)))
         \<and> block_amount (Data blk) = Some (et_Amount tx)"
proof -
  define bc where "bc = ExpenditureBlockchain ngo"
  define blockData where "blockData = JObj [(''type'', JStr ''expenditure''),
                (''transaction_id'', JStr (et_TransactionID tx)),
                (''amount'', JNum (et_Amount tx)),
                (''currency'', JStr ''INR''),
                (''category'', JStr (et_Category tx)),
                (''description'', JStr (et_Description tx)),
                (''invoice_details'', InvoiceDetails_json (et_InvoiceDetails tx)),
                (''auditor_validation'', AuditorValidation_json (et_AuditorValidation tx)),
                (''compliance_score'', JNum (ComplianceScore tx)),
                (''timestamp'', JTime (et_Timestamp tx)),
                (''attachments'', extractAttachmentHashes (et_Attachments tx))]"
  define b0 where "b0 = AddValidator now (Validate (NewBlock L now (GetChainLength bc) now
                              blockData (Hash (last (Chain bc))) ''expenditure''))
                          (av_AuditorID v) (av_Signature v) ''auditor''"
  have ne: "Chain bc \<noteq> []" using assms(5) by (simp add: bc_def)
  have "mineable L (Difficulty bc) b0"
    using assms(6) by (simp add: pow_solvable_def bc_def)
  moreover have "Hash b0 = calculateHash L b0" "PreviousHash b0 = Hash (last (Chain bc))"
    "Index b0 = int (length (Chain bc))"
    by (simp_all add: b0_def GetChainLength_def)
  ultimately obtain k where k:
    "AddBlock L bc b0 = Some (Returns (bc\<lparr> Chain := Chain bc @ [(mine_step L ^^ k) b0] \<rparr>,
                                              (mine_step L ^^ k) b0, True))"
    "HasPrefix (Hash ((mine_step L ^^ k) b0)) (Repeat ''0'' (Difficulty bc))"
    using AddBlock_consistent[OF ne, of b0 L] by blast
  define blk where "blk = (mine_step L ^^ k) b0"
  have blk: "Index blk = int (length (Chain bc))" "Validated blk" "Hash blk = calculateHash L blk"
    "PreviousHash blk = Hash (last (Chain bc))" "Data blk = blockData"
    unfolding blk_def by (simp_all add: b0_def GetChainLength_def funpow_mine_hash)
  have amt: "block_amount (Data blk) = Some (et_Amount tx)"
    by (simp add: blk(5) blockData_def block_amount_def)
  have run: "NGO_ProcessExpenditure L now ngo tx
           = Some (Returns (ngo\<lparr> ExpenditureBlockchain := bc\<lparr> Chain := Chain bc @ [blk] \<rparr>,
                                 TotalExpenditureReported := TotalExpenditureReported ngo + et_Amount tx \<rparr>,
                            Inr \<lparr> Success = True, BlockHash = Hash blk,
                                  pr_TransactionID = et_TransactionID tx,
                                  BlockIndex = Index blk, pr_EBill = JNull \<rparr>))"
    using assms(1-4) ne k(1)
    unfolding NGO_ProcessExpenditure_def bc_def[symmetric] blockData_def[symmetric]
    by (simp add: GetLatestBlock_Some Let_def b0_def[symmetric] blk_def[symmetric])
  from run blk amt k(2) show ?thesis
    unfolding bc_def[symmetric] blk_def[symmetric]
    by (intro exI[of _ blk] exI[of _ "\<lparr> Success = True, BlockHash = Hash blk,
                                  pr_TransactionID = et_TransactionID tx,
                                  BlockIndex = Index blk, pr_EBill = JNull \<rparr>"]) simp
qed

lemma ValidateByAuditor_fields:
  "\<exists>v. et_AuditorValidation (ValidateByAuditor L now tx aid ok remarks sc) = Some v \<and> IsValid v = ok
       \<and> av_AuditorID v = aid"
  "et_InvoiceDetails (ValidateByAuditor L now tx aid ok remarks sc) = et_InvoiceDetails tx"
  "ComplianceScore (ValidateByAuditor L now tx aid ok remarks sc) = ComplianceScore tx"
  "et_Amount (ValidateByAuditor L now tx aid ok remarks sc) = et_Amount tx"
  "et_TransactionID (ValidateByAuditor L now tx aid ok remarks sc) = et_TransactionID tx"
  "et_Status (ValidateByAuditor L now tx aid ok remarks sc) = (if ok then ''validated'' else ''rejected'')"
  by (simp_all add: ValidateByAuditor_def Let_def)

lemma full_invoice_score:
  assumes "InvoiceNumber iv \<noteq> []" and "VerifyGSTIN (GSTIN iv)"
    and "VendorName iv \<noteq> []" and "VendorGSTIN iv \<noteq> []"
    and "BankTransactionID iv \<noteq> [] \<or> ChequeNumber iv \<noteq> []"
    and "Documents iv \<noteq> []" and "atts \<noteq> []"
    and "now - InvoiceDate iv \<le> 90 * 24 * 3600 * 1000000000"
  shows "ComplianceScore (NewExpenditureTransaction now rb n a c d iv atts) = 100"
  using assms unfolding NewExpenditureTransaction_score score_as_sum
  by (simp add: VerifyGSTIN_iff)

lemma NewBlockchain_fields [simp]:
  "Chain (NewBlockchain L now n ct d) \<noteq> []"
  "length (Chain (NewBlockchain L now n ct d)) = 1"
  "Difficulty (NewBlockchain L now n ct d) = (if d < 1 then 2 else nat d)"
  by (simp_all add: NewBlockchain_def Let_def)

lemma NewNGO_fields [simp]:
  "Chain (ExpenditureBlockchain (NewNGO L now n nm r c k s)) \<noteq> []"
  "length (Chain (ExpenditureBlockchain (NewNGO L now n nm r c k s))) = 1"
  "Difficulty (ExpenditureBlockchain (NewNGO L now n nm r c k s)) = 2"
  "Chain (DonationBlockchain (NewNGO L now n nm r c k s)) \<noteq> []"
  "length (Chain (DonationBlockchain (NewNGO L now n nm r c k s))) = 1"
  "Difficulty (DonationBlockchain (NewNGO L now n nm r c k s)) = 2"
  "TotalExpenditureReported (NewNGO L now n nm r c k s) = 0"
  "TotalDonationsReceived (NewNGO L now n nm r c k s) = 0"
  "kyc_Verified (ngo_KYCData (NewNGO L now n nm r c k s)) = False"
  by (simp_all add: NewNGO_def Let_def)

lemma NGO_VerifyKYC_fields [simp]:
  "ExpenditureBlockchain (NGO_VerifyKYC now ngo a cs) = ExpenditureBlockchain ngo"
  "DonationBlockchain (NGO_VerifyKYC now ngo a cs) = DonationBlockchain ngo"
  "TotalExpenditureReported (NGO_VerifyKYC now ngo a cs) = TotalExpenditureReported ngo"
  "TotalDonationsReceived (NGO_VerifyKYC now ngo a cs) = TotalDonationsReceived ngo"
  "kyc_Verified (ngo_KYCData (NGO_VerifyKYC now ngo a cs)) = True"
  by (simp_all add: NGO_VerifyKYC_def)

lemma ex_auditor_fields [simp]:
  "AuditorID ex_auditor = ''AUDITOR001''" "Verified ex_auditor"
  "AuditorID ex_auditor_demo = ''AUD001''" "Verified ex_auditor_demo"
  by (simp_all add: ex_auditor_def ex_auditor_demo_def VerifyCredentials_def NewAuditor_def Let_def)

lemma ex_platform_demo_eq:
  "ex_platform_demo = \<lparr> NGOs = [(''NGO001'', ex_ngo)], Donors = [],
      Auditors = [(''AUD001'', ex_auditor_demo)], Polygon = None,
      Stats = \<lparr> TotalTransactions = 0, TotalDonations = 0, TotalExpenditures = 0,
                PlatformFee = 1 / 100, ss_CreatedAt = ex_now \<rparr>,
      KYCAuthorities = [''GOVERNMENT_AUTHORITY''] \<rparr>"
  by (simp add: ex_platform_demo_def Let_def NewNGOTransparencyPlatform_def RegisterAuditor_def
      VerifyAuditorCredentials_def RegisterNGO_def VerifyNGOKYC_def ex_ngo_def ex_auditor_demo_def)

lemma ProcessExpenditure_constructs:
  assumes "map_of (NGOs p) ngoID = Some ngo"
    and "map_of (Auditors p) auditorID = Some auditor"
    and "Verified auditor"
    and "map_of expenditureData ''amount'' = Some (JNum amount)"
  shows "ProcessExpenditure L now rnd p ngoID expenditureData auditorID
        = audit_and_admit L now rnd p ngoID ngo auditorID auditor amount
            (case map_of expenditureData ''category'' of Some (JStr c) \<Rightarrow> c | _ \<Rightarrow> [])
            (NewExpenditureTransaction now (txBytes rnd) ngoID amount
               (case map_of expenditureData ''category'' of Some (JStr c) \<Rightarrow> c | _ \<Rightarrow> [])
               (case map_of expenditureData ''description'' of Some (JStr d) \<Rightarrow> d | _ \<Rightarrow> [])
               (synthesized_invoice now) [])"
  using assms by (simp add: ProcessExpenditure_def Let_def)

lemma audit_and_admit_never_admits_below_70:
  assumes "ComplianceScore tx < 70"
  shows "audit_and_admit L now rnd p ngoID ngo auditorID auditor amount category tx
           \<noteq> Some (Returns (p', Inr out))"
proof (cases "8 \<le> length (AuditorID auditor)")
  case True
  have "\<not> HasPrefix (generateRecommendation tx) ''Approve''"
    using assms by (simp add: generateRecommendation_def Let_def HasPrefix_def)
  from audit_and_admit_rejects[OF True this, of L now rnd p ngoID ngo auditorID amount category]
  show ?thesis by auto
next
  case False
  then show ?thesis by (simp add: audit_and_admit_short_id)
qed

lemma ProcessExpenditure_invalid_amount:
  assumes "map_of (NGOs p) ngoID = Some ngo"
    and "map_of (Auditors p) auditorID = Some auditor"
    and "Verified auditor"
    and "\<forall>amount. map_of expenditureData ''amount'' \<noteq> Some (JNum amount)"
  shows "ProcessExpenditure L now rnd p ngoID expenditureData auditorID
           = Some (Returns (p, Inl ''invalid amount''))"
proof (cases "map_of expenditureData ''amount''")
  case None
  with assms(1-3) show ?thesis
    unfolding ProcessExpenditure_def by simp
next
  case (Some j)
  with assms show ?thesis
    unfolding ProcessExpenditure_def by (cases j) simp_all
qed

text \<open>
  No call of the orchestrator's \<open>ProcessExpenditure\<close> returns a success, whatever the
  platform and the expenditure data: the transaction it audits always has the synthesized
  invoice and score 45, below every approving bucket. Its own steps after an approval
  (admission by the NGO, the counters, the anchor) are never reached.
\<close>

lemma orchestrator_never_admits:
  "ProcessExpenditure L now rnd p ngoID expenditureData auditorID \<noteq> Some (Returns (p', Inr out))"
proof (cases "map_of (NGOs p) ngoID")
  case None
  then show ?thesis unfolding ProcessExpenditure_def by simp
next
  case ngo: (Some ngo)
  show ?thesis
  proof (cases "map_of (Auditors p) auditorID")
    case None
    with ngo show ?thesis unfolding ProcessExpenditure_def by simp
  next
    case auditor: (Some auditor)
    show ?thesis
    proof (cases "Verified auditor")
      case False
      with ngo auditor show ?thesis unfolding ProcessExpenditure_def by simp
    next
      case verified: True
      show ?thesis
      proof (cases "\<exists>amount. map_of expenditureData ''amount'' = Some (JNum amount)")
        case False
        then show ?thesis
          by (simp add: ProcessExpenditure_invalid_amount[OF ngo auditor verified])
      next
        case True
        then obtain amount where amount: "map_of expenditureData ''amount'' = Some (JNum amount)"
          by blast
        have "ComplianceScore (NewExpenditureTransaction now (txBytes rnd) ngoID amount c d
                  (synthesized_invoice now) []) < 70" for c d
          unfolding NewExpenditureTransaction_score synthesized_score by simp
        then show ?thesis
          unfolding ProcessExpenditure_constructs[OF ngo auditor verified amount]
          by (rule audit_and_admit_never_admits_below_70)
      qed
    qed
  qed
qed

text \<open>
  Claim C1 (a defect of the code). On a fresh platform with a KYC-verified NGO and a verified
  auditor, \<open>ProcessExpenditure\<close> with amount 40000 and expenditure data that names an
  invoice number, GSTINs, vendor, documents, payment proof and attachments does not reach
  score 100 and approval: it returns the error of a rejection (the recommendation of score
  45), and the NGO is as it was, with one block (the genesis block) in its expenditure
  chain and \<open>total_expenditure_reported\<close> 0.
\<close>

theorem orchestrator_rejects_populated_expenditure:
  "\<exists>p'. ProcessExpenditure lib_zero ex_now ex_draws ex_platform ''NGO001'' ex_expenditure_data ''AUDITOR001''
          = Some (Returns (p', Inl ''expenditure rejected by auditor: Reject - Insufficient compliance and documentation''))
       \<and> NGOs p' = NGOs ex_platform
       \<and> map_of (NGOs p') ''NGO001'' = Some ex_ngo
       \<and> length (Chain (ExpenditureBlockchain ex_ngo)) = 1
       \<and> TotalExpenditureReported ex_ngo = 0"
proof -
  define tx where "tx = NewExpenditureTransaction ex_now (txBytes ex_draws) ''NGO001'' 40000
      ''Education'' ''School books and supplies for 50 children'' (synthesized_invoice ex_now) []"
  have run: "ProcessExpenditure lib_zero ex_now ex_draws ex_platform ''NGO001'' ex_expenditure_data ''AUDITOR001''
      = audit_and_admit lib_zero ex_now ex_draws ex_platform ''NGO001'' ex_ngo ''AUDITOR001'' ex_auditor
          40000 ''Education'' tx"
    unfolding tx_def
    by (subst ProcessExpenditure_constructs[where ngo = ex_ngo and auditor = ex_auditor and amount = 40000])
       (simp_all add: ex_platform_eq ex_expenditure_data_def)
  have "ComplianceScore tx = 45"
    unfolding tx_def NewExpenditureTransaction_score by (rule synthesized_score)
  then have rec: "generateRecommendation tx = ''Reject - Insufficient compliance and documentation''"
    by (simp add: recommendation_buckets(3))
  then have "\<not> HasPrefix (generateRecommendation tx) ''Approve''"
    by (simp add: HasPrefix_def)
  from audit_and_admit_rejects[OF _ this, of ex_auditor lib_zero ex_now ex_draws ex_platform
      "''NGO001''" ex_ngo "''AUDITOR001''" 40000 "''Education''"] rec run
  show ?thesis
    by (auto simp: ex_platform_eq ex_ngo_def)
qed

text \<open>
  The steps of \<open>ProcessExpenditure\<close> after the audit do admit a well documented
  expenditure, if they are given one. For a transaction constructed by
  \<open>NewExpenditureTransaction\<close> with every invoice field populated, payment proof, a
  document, an attachment and an invoice at most 90 days old, the score is exactly 100 and
  those steps yield the recommendation \<open>Approve - Excellent compliance\<close>, append the
  block to the NGO's expenditure chain and raise \<open>total_expenditure_reported\<close> by the
  amount, provided the auditor's id has at least eight bytes and proof of work has a
  solution. The orchestrator itself never hands them such a transaction.
\<close>

lemma approved_expenditure_is_admitted:
  assumes "8 \<le> length (AuditorID auditor)"
    and "Chain (ExpenditureBlockchain ngo) \<noteq> []"
    and "pow_solvable L (Difficulty (ExpenditureBlockchain ngo))"
    and "InvoiceNumber iv \<noteq> []" and "VerifyGSTIN (GSTIN iv)"
    and "VendorName iv \<noteq> []" and "VendorGSTIN iv \<noteq> []"
    and "BankTransactionID iv \<noteq> [] \<or> ChequeNumber iv \<noteq> []"
    and "Documents iv \<noteq> []" and "atts \<noteq> []"
    and "now - InvoiceDate iv \<le> 90 * 24 * 3600 * 1000000000"
  shows "\<exists>p' out ngo' blk.
      ComplianceScore (NewExpenditureTransaction now rb ngoID amount category description iv atts) = 100
    \<and> audit_and_admit L now rnd p ngoID ngo auditorID auditor amount category
          (NewExpenditureTransaction now rb ngoID amount category description iv atts)
        = Some (Returns (p', Inr out))
    \<and> ar_ComplianceScore (audit_result out) = 100
    \<and> Recommendation (audit_result out) = ''Approve - Excellent compliance''
    \<and> map_of (NGOs p') ngoID = Some ngo'
    \<and> Chain (ExpenditureBlockchain ngo') = Chain (ExpenditureBlockchain ngo) @ [blk]
    \<and> eo_block_hash out = Hash blk
    \<and> block_amount (Data blk) = Some amount
    \<and> TotalExpenditureReported ngo' = TotalExpenditureReported ngo + amount
    \<and> TotalExpenditures (Stats p') = TotalExpenditures (Stats p) + amount"
proof -
  define tx where "tx = NewExpenditureTransaction now rb ngoID amount category description iv atts"
  have score: "ComplianceScore tx = 100"
    unfolding tx_def using assms(4-11) by (rule full_invoice_score)
  then have rec: "generateRecommendation tx = ''Approve - Excellent compliance''"
    by (simp add: recommendation_buckets(4))
  from AuditExpenditure_long_id[OF assms(1), of L now tx "[]"] obtain res where
    res: "AuditExpenditure L now auditor tx [] = Returns (auditor\<lparr> AuditHistory := AuditHistory auditor @ [res] \<rparr>, res)"
      "Recommendation res = generateRecommendation tx" "ar_ComplianceScore res = ComplianceScore tx"
    by blast
  have approve: "Contains (ToLower (Recommendation res)) ''approve''"
    by (simp add: res(2) rec approve_texts(1))
  define tx' where "tx' = ValidateByAuditor L now tx auditorID True (Recommendation res)
                             (Some (ar_ComplianceScore res))"
  obtain v where v: "et_AuditorValidation tx' = Some v" "IsValid v"
    using ValidateByAuditor_fields(1)[of L now tx auditorID True "Recommendation res"
        "Some (ar_ComplianceScore res)"] unfolding tx'_def by auto
  have tx': "VerifyGSTIN (GSTIN (et_InvoiceDetails tx'))" "60 \<le> ComplianceScore tx'"
    "et_Amount tx' = amount"
    using assms(5) score by (simp_all add: tx'_def ValidateByAuditor_fields tx_def)
  from NGO_ProcessExpenditure_admits[OF v tx'(1,2) assms(2,3), of now]
  obtain blk r where adm:
    "NGO_ProcessExpenditure L now ngo tx'
       = Some (Returns (ngo\<lparr> ExpenditureBlockchain :=
                                   (ExpenditureBlockchain ngo)\<lparr> Chain := Chain (ExpenditureBlockchain ngo) @ [blk] \<rparr>,
                                 TotalExpenditureReported := TotalExpenditureReported ngo + et_Amount tx' \<rparr>,
                            Inr r))"
    "BlockHash r = Hash blk" "block_amount (Data blk) = Some (et_Amount tx')"
    by blast
  define ngo' where "ngo' = ngo\<lparr> ExpenditureBlockchain :=
                                   (ExpenditureBlockchain ngo)\<lparr> Chain := Chain (ExpenditureBlockchain ngo) @ [blk] \<rparr>,
                                 TotalExpenditureReported := TotalExpenditureReported ngo + amount \<rparr>"
  have "\<exists>p' out. audit_and_admit L now rnd p ngoID ngo auditorID auditor amount category tx
           = Some (Returns (p', Inr out))
        \<and> audit_result out = res \<and> eo_block_hash out = Hash blk
        \<and> map_of (NGOs p') ngoID = Some ngo'
        \<and> TotalExpenditures (Stats p') = TotalExpenditures (Stats p) + amount"
    using res(1) approve adm tx'(3)
    unfolding audit_and_admit_def tx'_def[symmetric] ngo'_def
    by (cases "Polygon p") (simp_all add: Let_def tx'_def[symmetric] update_conv')
  then obtain p' out where
    "audit_and_admit L now rnd p ngoID ngo auditorID auditor amount category tx = Some (Returns (p', Inr out))"
    "audit_result out = res" "eo_block_hash out = Hash blk" "map_of (NGOs p') ngoID = Some ngo'"
    "TotalExpenditures (Stats p') = TotalExpenditures (Stats p) + amount"
    by blast
  with score rec res adm(3) tx'(3) show ?thesis
    unfolding tx_def[symmetric]
    by (intro exI[of _ p'] exI[of _ out] exI[of _ ngo'] exI[of _ blk]) (simp add: ngo'_def)
qed

lemma approved_expenditure_is_admitted_example:
  "\<exists>p' out ngo' blk.
      audit_and_admit lib_zero ex_now ex_draws ex_platform ''NGO001'' ex_ngo ''AUDITOR001'' ex_auditor
          40000 ''Education''
          (NewExpenditureTransaction ex_now (txBytes ex_draws) ''NGO001'' 40000 ''Education''
             ''School books'' ex_invoice_full [ex_attachment])
        = Some (Returns (p', Inr out))
    \<and> ar_ComplianceScore (audit_result out) = 100
    \<and> Recommendation (audit_result out) = ''Approve - Excellent compliance''
    \<and> map_of (NGOs p') ''NGO001'' = Some ngo'
    \<and> Chain (ExpenditureBlockchain ngo') = Chain (ExpenditureBlockchain ex_ngo) @ [blk]
    \<and> block_amount (Data blk) = Some 40000
    \<and> TotalExpenditureReported ngo' = 40000"
proof -
  have g: "VerifyGSTIN (GSTIN ex_invoice_full)"
    using VerifyGSTIN_example by (simp add: ex_invoice_full_def)
  have "\<exists>p' out ngo' blk.
      ComplianceScore (NewExpenditureTransaction ex_now (txBytes ex_draws) ''NGO001'' 40000 ''Education''
             ''School books'' ex_invoice_full [ex_attachment]) = 100
    \<and> audit_and_admit lib_zero ex_now ex_draws ex_platform ''NGO001'' ex_ngo ''AUDITOR001'' ex_auditor
          40000 ''Education''
          (NewExpenditureTransaction ex_now (txBytes ex_draws) ''NGO001'' 40000 ''Education''
             ''School books'' ex_invoice_full [ex_attachment])
        = Some (Returns (p', Inr out))
    \<and> ar_ComplianceScore (audit_result out) = 100
    \<and> Recommendation (audit_result out) = ''Approve - Excellent compliance''
    \<and> map_of (NGOs p') ''NGO001'' = Some ngo'
    \<and> Chain (ExpenditureBlockchain ngo') = Chain (ExpenditureBlockchain ex_ngo) @ [blk]
    \<and> eo_block_hash out = Hash blk
    \<and> block_amount (Data blk) = Some 40000
    \<and> TotalExpenditureReported ngo' = TotalExpenditureReported ex_ngo + 40000
    \<and> TotalExpenditures (Stats p') = TotalExpenditures (Stats ex_platform) + 40000"
  proof (rule approved_expenditure_is_admitted)
    show "8 \<le> length (AuditorID ex_auditor)" by simp
    show "Chain (ExpenditureBlockchain ex_ngo) \<noteq> []" by (simp add: ex_ngo_def)
    show "pow_solvable lib_zero (Difficulty (ExpenditureBlockchain ex_ngo))"
      by (simp add: ex_ngo_def pow_solvable_lib_zero)
    show "VerifyGSTIN (GSTIN ex_invoice_full)" by (rule g)
    show "ex_now - InvoiceDate ex_invoice_full \<le> 90 * 24 * 3600 * 1000000000"
      by (simp add: ex_invoice_full_def ex_now_def)
  qed (simp_all add: ex_invoice_full_def)
  moreover have "TotalExpenditureReported ex_ngo = 0" by (simp add: ex_ngo_def)
  ultimately show ?thesis by auto
qed

text \<open>
  Claim C3 at the registrations of the repository's demo program: the NGO is registered,
  the auditor \<open>AUD001\<close> is registered and verified, and the call neither approves nor
  returns the error with the recommendation: \<open>AuditExpenditure\<close> slices the first
  eight bytes of the six-byte id and panics.
\<close>

theorem orchestrator_expenditure_panics_on_short_auditor_id:
  "ProcessExpenditure lib_zero ex_now ex_draws ex_platform_demo ''NGO001'' ex_expenditure_data ''AUD001''
     = Some (Panics ''slice bounds out of range [:8]'')"
  by (subst ProcessExpenditure_constructs[where ngo = ex_ngo and auditor = ex_auditor_demo and amount = 40000])
     (simp_all add: ex_platform_demo_eq ex_expenditure_data_def audit_and_admit_short_id)

subsection \<open>Donations: e-bills, proofs and admission\<close>

lemma generateBillSignature_upd [simp]:
  "generateBillSignature L (bill\<lparr> eb_Signature := s \<rparr>) = generateBillSignature L bill"
  "generateBillSignature L (bill\<lparr> QRCode := q \<rparr>) = generateBillSignature L bill"
  "generateBillSignature L (bill\<lparr> DownloadURL := u \<rparr>) = generateBillSignature L bill"
  by (simp_all add: generateBillSignature_def bill_signatureData_def)

lemma generateEBill_signed:
  "eb_Signature (generateEBill L bb dt) = generateBillSignature L (generateEBill L bb dt)"
  by (simp add: generateEBill_def Let_def generateBillSignature_def bill_signatureData_def)

lemma NewDonationTransaction_fields [simp]:
  "dt_Amount (NewDonationTransaction L now rb bb d n a m k) = a"
  "dt_Timestamp (NewDonationTransaction L now rb bb d n a m k) = now"
  "dt_DonorID (NewDonationTransaction L now rb bb d n a m k) = d"
  "dt_NGOID (NewDonationTransaction L now rb bb d n a m k) = n"
  "dt_TransactionID (NewDonationTransaction L now rb bb d n a m k) = EncodeToString rb"
  "dt_PaymentMethod (NewDonationTransaction L now rb bb d n a m k) = m"
  "dt_Status (NewDonationTransaction L now rb bb d n a m k) = ''pending''"
  "dt_ZKProof (NewDonationTransaction L now rb bb d n a m k) = Some (GenerateProof L now d a now)"
  by (simp_all add: NewDonationTransaction_def Let_def)

lemma NewDonationTransaction_EBill:
  "\<exists>bill. dt_EBill (NewDonationTransaction L now rb bb d n a m k) = Some bill
        \<and> eb_Signature bill = generateBillSignature L bill
        \<and> eb_Amount bill = a"
  by (simp add: NewDonationTransaction_def Let_def generateEBill_signed)
     (simp add: generateEBill_def Let_def)

lemma ValidateEBill_fresh:
  "ValidateEBill L (NewDonationTransaction L now rb bb d n a m k)"
  using NewDonationTransaction_EBill[of L now rb bb d n a m k]
  by (auto simp: ValidateEBill_def Let_def)

lemma VerifyProof_fresh:
  "sha_ok L \<Longrightarrow> VerifyProof now (dt_ZKProof (NewDonationTransaction L now rb bb d n a m k))
      (dt_Amount (NewDonationTransaction L now rb bb d n a m k))
      (dt_Timestamp (NewDonationTransaction L now rb bb d n a m k))"
  by (simp add: VerifyProof_iff GenerateProof_hex)

lemma AddBlock_Returns:
  assumes "AddBlock L bc b = Some (Returns (bc', b', added))"
  shows "Chain bc \<noteq> []"
    and "added \<Longrightarrow> bc' = bc\<lparr> Chain := Chain bc @ [b'] \<rparr>"
    and "\<not> added \<Longrightarrow> bc' = bc"
    and "added \<Longrightarrow> Hash b' = calculateHash L b'"
    and "PreviousHash b' = Hash (last (Chain bc))"
    and "Index b' = int (length (Chain bc))"
    and "HasPrefix (Hash b') (Repeat ''0'' (Difficulty bc))"
    and "Data b' = Data b" and "Validated b' = Validated b" and "Validators b' = Validators b"
    and "b_Timestamp b' = b_Timestamp b" and "BlockType b' = BlockType b"
    and "MerkleRoot b' = MerkleRoot b"
proof -
  show ne: "Chain bc \<noteq> []"
    using assms by (auto simp: AddBlock_def)
  define b1 where "b1 = b\<lparr> PreviousHash := Hash (last (Chain bc)), Index := int (length (Chain bc)) \<rparr>"
  from assms ne obtain m where m: "MineBlock L (Difficulty bc) b1 = Some m"
    by (auto simp: AddBlock_def Let_def b1_def split: option.splits)
  from AddBlock_mined[OF ne, of L b m] m assms have
    r: "b' = m" "added = (Hash m = calculateHash L m)"
       "bc' = (if added then bc\<lparr> Chain := Chain bc @ [m] \<rparr> else bc)"
    by (auto simp: b1_def split: if_splits)
  from MineBlock_Some_funpow[OF m] obtain k where k: "m = (mine_step L ^^ k) b1"
    "HasPrefix (Hash m) (Repeat ''0'' (Difficulty bc))" by blast
  show "added \<Longrightarrow> bc' = bc\<lparr> Chain := Chain bc @ [b'] \<rparr>" using r by simp
  show "\<not> added \<Longrightarrow> bc' = bc" using r by simp
  show "added \<Longrightarrow> Hash b' = calculateHash L b'" using r by simp
  show "PreviousHash b' = Hash (last (Chain bc))" "Index b' = int (length (Chain bc))"
    "Data b' = Data b" "Validated b' = Validated b" "Validators b' = Validators b"
    "b_Timestamp b' = b_Timestamp b" "BlockType b' = BlockType b" "MerkleRoot b' = MerkleRoot b"
    using r(1) k(1) by (simp_all add: b1_def)
  show "HasPrefix (Hash b') (Repeat ''0'' (Difficulty bc))" using r(1) k(2) by simp
qed

lemma NGO_ProcessDonation_Inr:
  assumes "NGO_ProcessDonation L now ngo dt = Some (Returns (ngo', dt', Inr r))"
  shows "\<exists>blk. ngo' = ngo\<lparr> DonationBlockchain :=
                             (DonationBlockchain ngo)\<lparr> Chain := Chain (DonationBlockchain ngo) @ [blk] \<rparr>,
                           TotalDonationsReceived := TotalDonationsReceived ngo + dt_Amount dt \<rparr>
            \<and> dt' = MarkComplete now dt
            \<and> Success r \<and> BlockHash r = Hash blk \<and> pr_TransactionID r = dt_TransactionID dt
            \<and> BlockIndex r = int (length (Chain (DonationBlockchain ngo)))
            \<and> Index blk = int (length (Chain (DonationBlockchain ngo)))
            \<and> Validated blk \<and> Hash blk = calculateHash L blk
            \<and> PreviousHash blk = Hash (last (Chain (DonationBlockchain ngo)))
            \<and> HasPrefix (Hash blk) (Repeat ''0'' (Difficulty (DonationBlockchain ngo)))
            \<and> block_amount (Data blk) = Some (dt_Amount dt)"
proof -
  define bc where "bc = DonationBlockchain ngo"
  from assms obtain latestBlock bill zk where
    some: "GetLatestBlock bc = Some latestBlock" "dt_EBill dt = Some bill" "dt_ZKProof dt = Some zk"
    and ok: "ValidateEBill L dt" "VerifyProof now (dt_ZKProof dt) (dt_Amount dt) (dt_Timestamp dt)"
    unfolding NGO_ProcessDonation_def bc_def
    by (auto simp: Let_def split: if_splits option.splits)
  define blockData where "blockData = JObj [(''type'', JStr ''donation''),
              (''transaction_id'', JStr (dt_TransactionID dt)),
              (''donor_hash'', JStr (generateDonorHash L (dt_DonorID dt))),
              (''amount'', JNum (dt_Amount dt)),
              (''currency'', JStr ''INR''),
              (''zk_proof'', ZKProof_json (dt_ZKProof dt)),
              (''e_bill'', EBill_json (dt_EBill dt)),
              (''timestamp'', JTime (dt_Timestamp dt)),
              (''payment_method'', JStr (dt_PaymentMethod dt))]"
  define b0 where "b0 = AddValidator now (AddValidator now (Validate (NewBlock L now (GetChainLength bc) now
                            blockData (Hash latestBlock) ''donation''))
                          ''ebill_system'' (eb_Signature bill) ''ebill'')
                        ''zk_system'' (Proof zk) ''zkproof''"
  from assms some ok obtain bc' blk where
    add: "AddBlock L bc b0 = Some (Returns (bc', blk, True))"
    and res: "ngo' = ngo\<lparr> DonationBlockchain := bc',
                           TotalDonationsReceived := TotalDonationsReceived ngo + dt_Amount dt \<rparr>"
      "dt' = MarkComplete now dt"
      "r = \<lparr> Success = True, BlockHash = Hash blk, pr_TransactionID = dt_TransactionID dt,
              BlockIndex = Index blk, pr_EBill = EBill_json (dt_EBill dt) \<rparr>"
    unfolding NGO_ProcessDonation_def bc_def[symmetric] blockData_def[symmetric]
    by (auto simp: Let_def b0_def[symmetric] MarkComplete_def split: option.splits run.splits if_splits)
  note a = AddBlock_Returns[OF add]
  have "Data blk = blockData" "Validated blk"
    using a(8,9) by (simp_all add: b0_def)
  then have "block_amount (Data blk) = Some (dt_Amount dt)"
    by (simp add: blockData_def block_amount_def)
  with res a \<open>Validated blk\<close> show ?thesis
    unfolding bc_def[symmetric] by (intro exI[of _ blk]) simp
qed

lemma NGO_ProcessDonation_admits:
  assumes "sha_ok L"
    and "Chain (DonationBlockchain ngo) \<noteq> []"
    and "pow_solvable L (Difficulty (DonationBlockchain ngo))"
  shows "\<exists>ngo' r. NGO_ProcessDonation L now ngo (NewDonationTransaction L now rb bb d n a m k)
            = Some (Returns (ngo', MarkComplete now (NewDonationTransaction L now rb bb d n a m k), Inr r))"
proof -
  define dt where "dt = NewDonationTransaction L now rb bb d n a m k"
  define bc where "bc = DonationBlockchain ngo"
  obtain bill where bill: "dt_EBill dt = Some bill"
    using NewDonationTransaction_EBill[of L now rb bb d n a m k] unfolding dt_def by blast
  have zk: "dt_ZKProof dt = Some (GenerateProof L now d a now)" by (simp add: dt_def)
  have ok: "ValidateEBill L dt" "VerifyProof now (dt_ZKProof dt) (dt_Amount dt) (dt_Timestamp dt)"
    unfolding dt_def using assms(1) by (simp_all only: ValidateEBill_fresh VerifyProof_fresh)
  have ne: "Chain bc \<noteq> []" using assms(2) by (simp add: bc_def)
  define blockData where "blockData = JObj [(''type'', JStr ''donation''),
              (''transaction_id'', JStr (dt_TransactionID dt)),
              (''donor_hash'', JStr (generateDonorHash L (dt_DonorID dt))),
              (''amount'', JNum (dt_Amount dt)),
              (''currency'', JStr ''INR''),
              (''zk_proof'', ZKProof_json (dt_ZKProof dt)),
              (''e_bill'', EBill_json (dt_EBill dt)),
              (''timestamp'', JTime (dt_Timestamp dt)),
              (''payment_method'', JStr (dt_PaymentMethod dt))]"
  define b0 where "b0 = AddValidator now (AddValidator now (Validate (NewBlock L now (GetChainLength bc) now
                            blockData (Hash (last (Chain bc))) ''donation''))
                          ''ebill_system'' (eb_Signature bill) ''ebill'')
                        ''zk_system'' (Proof (GenerateProof L now d a now)) ''zkproof''"
  have "mineable L (Difficulty bc) b0"
    using assms(3) by (simp add: pow_solvable_def bc_def)
  moreover have "Hash b0 = calculateHash L b0" "PreviousHash b0 = Hash (last (Chain bc))"
    "Index b0 = int (length (Chain bc))"
    by (simp_all add: b0_def GetChainLength_def)
  ultimately obtain j where j:
    "AddBlock L bc b0 = Some (Returns (bc\<lparr> Chain := Chain bc @ [(mine_step L ^^ j) b0] \<rparr>,
                                              (mine_step L ^^ j) b0, True))"
    using AddBlock_consistent[OF ne, of b0 L] by blast
  show ?thesis
    using ok bill zk ne j
    unfolding NGO_ProcessDonation_def dt_def[symmetric] bc_def[symmetric] blockData_def[symmetric]
    by (simp add: GetLatestBlock_Some Let_def b0_def[symmetric])
qed

subsection \<open>Donations through the orchestrator\<close>

lemma updateTaxBenefits_fields [simp]:
  "DonationHistory (updateTaxBenefits L d r) = DonationHistory d"
  "KYCVerified (updateTaxBenefits L d r) = KYCVerified d"
  "AnnualDonationLimit (updateTaxBenefits L d r) = AnnualDonationLimit d"
  "donor_TotalDonated (updateTaxBenefits L d r) = donor_TotalDonated d"
  "DonorID (updateTaxBenefits L d r) = DonorID d"
  by (simp_all add: updateTaxBenefits_def Let_def split: option.splits)

lemma ProcessDonation_Inr:
  assumes "ProcessDonation L now rnd p donorID ngoID g m = Some (Returns (p', Inr out))"
  shows "\<exists>donor ngo blk donor' rec.
           map_of (Donors p) donorID = Some donor \<and> map_of (NGOs p) ngoID = Some ngo
         \<and> KYCVerified donor \<and> kyc_Verified (ngo_KYCData ngo)
         \<and> CanDonate (CheckDonationLimit L now donor g)
         \<and> NGOs p' = AList.update ngoID
              (ngo\<lparr> DonationBlockchain :=
                       (DonationBlockchain ngo)\<lparr> Chain := Chain (DonationBlockchain ngo) @ [blk] \<rparr>,
                    TotalDonationsReceived :=
                       TotalDonationsReceived ngo + (g - g * PlatformFee (Stats p)) \<rparr>) (NGOs p)
         \<and> Donors p' = AList.update donorID donor' (Donors p)
         \<and> DonationHistory donor' = DonationHistory donor @ [rec]
         \<and> dr_Amount rec = g - g * PlatformFee (Stats p) \<and> dr_Timestamp rec = now
         \<and> KYCVerified donor' \<and> AnnualDonationLimit donor' = AnnualDonationLimit donor
         \<and> Stats p' = (Stats p)\<lparr> TotalTransactions := TotalTransactions (Stats p) + 1,
                                  TotalDonations := TotalDonations (Stats p)
                                                     + (g - g * PlatformFee (Stats p)) \<rparr>
         \<and> Auditors p' = Auditors p
         \<and> do_success out \<and> do_block_hash out = Hash blk
         \<and> do_block_index out = int (length (Chain (DonationBlockchain ngo)))
         \<and> platform_fee out = g * PlatformFee (Stats p)
         \<and> net_amount out = g - g * PlatformFee (Stats p)
         \<and> gross_amount out = g
         \<and> Index blk = int (length (Chain (DonationBlockchain ngo)))
         \<and> Validated blk \<and> Hash blk = calculateHash L blk
         \<and> PreviousHash blk = Hash (last (Chain (DonationBlockchain ngo)))
         \<and> block_amount (Data blk) = Some (g - g * PlatformFee (Stats p))"
proof -
  from assms obtain donor ngo where
    look: "map_of (Donors p) donorID = Some donor" "map_of (NGOs p) ngoID = Some ngo"
    and pre: "KYCVerified donor" "kyc_Verified (ngo_KYCData ngo)"
      "CanDonate (CheckDonationLimit L now donor g)"
    unfolding ProcessDonation_def
    by (auto simp: Let_def split: option.splits if_splits)
  define dt where "dt = NewDonationTransaction L now (txBytes rnd) (billBytes rnd) donorID ngoID
                            (g - g * PlatformFee (Stats p)) m (DocumentHash (donor_KYCData donor))"
  define net where "net = g - g * PlatformFee (Stats p)"
  from assms look pre obtain ngo' dt' r donor' where
    ngo: "NGO_ProcessDonation L now ngo dt = Some (Returns (ngo', dt', Inr r))"
    and don: "AddDonation L donor dt' = Returns donor'"
    and p': "NGOs p' = AList.update ngoID ngo' (NGOs p)"
      "Donors p' = AList.update donorID donor' (Donors p)"
      "Stats p' = (Stats p)\<lparr> TotalTransactions := TotalTransactions (Stats p) + 1,
                              TotalDonations := TotalDonations (Stats p) + net \<rparr>"
      "Auditors p' = Auditors p"
    and out: "do_success out = Success r" "do_block_hash out = BlockHash r"
      "do_block_index out = BlockIndex r"
      "platform_fee out = g * PlatformFee (Stats p)" "net_amount out = net" "gross_amount out = g"
    unfolding ProcessDonation_def net_def
    by (auto simp: Let_def dt_def[symmetric] split: option.splits run.splits sum.splits prod.splits)
  have amt: "dt_Amount dt = net" "dt_Timestamp dt = now" by (simp_all add: dt_def net_def)
  from NGO_ProcessDonation_Inr[OF ngo] obtain blk where
    blk: "ngo' = ngo\<lparr> DonationBlockchain :=
                             (DonationBlockchain ngo)\<lparr> Chain := Chain (DonationBlockchain ngo) @ [blk] \<rparr>,
                           TotalDonationsReceived := TotalDonationsReceived ngo + net \<rparr>"
      "dt' = MarkComplete now dt" "Success r" "BlockHash r = Hash blk"
      "BlockIndex r = int (length (Chain (DonationBlockchain ngo)))"
      "Index blk = int (length (Chain (DonationBlockchain ngo)))"
      "Validated blk" "Hash blk = calculateHash L blk"
      "PreviousHash blk = Hash (last (Chain (DonationBlockchain ngo)))"
      "block_amount (Data blk) = Some net"
    unfolding amt by blast
  from don obtain rec where
    rec: "DonationHistory donor' = DonationHistory donor @ [rec]" "dr_Amount rec = net"
      "dr_Timestamp rec = now" "KYCVerified donor' = KYCVerified donor"
      "AnnualDonationLimit donor' = AnnualDonationLimit donor"
    unfolding AddDonation_def blk(2)
    by (auto simp: Let_def MarkComplete_def amt split: option.splits)
  show ?thesis
    apply (rule exI[of _ donor], rule exI[of _ ngo], rule exI[of _ blk], rule exI[of _ donor'],
           rule exI[of _ rec])
    using look pre p' out blk rec unfolding net_def by simp
qed

lemma ProcessDonation_succeeds:
  assumes "sha_ok L"
    and "map_of (Donors p) donorID = Some donor" "map_of (NGOs p) ngoID = Some ngo"
    and "KYCVerified donor" "kyc_Verified (ngo_KYCData ngo)"
    and "CanDonate (CheckDonationLimit L now donor g)"
    and "Chain (DonationBlockchain ngo) \<noteq> []"
    and "pow_solvable L (Difficulty (DonationBlockchain ngo))"
  shows "\<exists>p' out. ProcessDonation L now rnd p donorID ngoID g m = Some (Returns (p', Inr out))"
proof -
  define dt where "dt = NewDonationTransaction L now (txBytes rnd) (billBytes rnd) donorID ngoID
                            (g - g * PlatformFee (Stats p)) m (DocumentHash (donor_KYCData donor))"
  define net where "net = g - g * PlatformFee (Stats p)"
  obtain ngo' r where
    ngo: "NGO_ProcessDonation L now ngo dt = Some (Returns (ngo', MarkComplete now dt, Inr r))"
    unfolding dt_def using NGO_ProcessDonation_admits[OF assms(1,7,8)] by blast
  obtain bill where "dt_EBill dt = Some bill"
    unfolding dt_def using NewDonationTransaction_EBill by blast
  then obtain donor' where don: "AddDonation L donor (MarkComplete now dt) = Returns donor'"
    by (simp add: AddDonation_def MarkComplete_def Let_def)
  show ?thesis
    using assms(2-6) ngo don
    unfolding ProcessDonation_def
    by (simp add: Let_def dt_def[symmetric] split: option.splits prod.splits)
qed

lemma ex_donor_fields [simp]:
  "KYCVerified ex_donor" "DonationHistory ex_donor = []" "AnnualDonationLimit ex_donor = 1000000"
  by (simp_all add: ex_donor_def Donor_VerifyKYC_def NewDonor_def Let_def)

lemma ex_ngo_fields [simp]:
  "kyc_Verified (ngo_KYCData ex_ngo)" "Chain (DonationBlockchain ex_ngo) \<noteq> []"
  "Difficulty (DonationBlockchain ex_ngo) = 2" "TotalDonationsReceived ex_ngo = 0"
  "length (Chain (DonationBlockchain ex_ngo)) = 1"
  by (simp_all add: ex_ngo_def)



subsection \<open>Three donations and the platform statistics\<close>

lemma ProcessDonation_step:
  assumes "sha_ok L"
    and "map_of (Donors p) donorID = Some donor" "map_of (NGOs p) ngoID = Some ngo"
    and "KYCVerified donor" "kyc_Verified (ngo_KYCData ngo)"
    and "CanDonate (CheckDonationLimit L now donor g)"
    and "Chain (DonationBlockchain ngo) \<noteq> []"
    and "pow_solvable L (Difficulty (DonationBlockchain ngo))"
  shows "\<exists>p' out blk donor' rec.
           ProcessDonation L now rnd p donorID ngoID g m = Some (Returns (p', Inr out))
         \<and> map_of (NGOs p') ngoID = Some
              (ngo\<lparr> DonationBlockchain :=
                       (DonationBlockchain ngo)\<lparr> Chain := Chain (DonationBlockchain ngo) @ [blk] \<rparr>,
                    TotalDonationsReceived :=
                       TotalDonationsReceived ngo + (g - g * PlatformFee (Stats p)) \<rparr>)
         \<and> map_of (Donors p') donorID = Some donor'
         \<and> DonationHistory donor' = DonationHistory donor @ [rec]
         \<and> dr_Amount rec = g - g * PlatformFee (Stats p)
         \<and> KYCVerified donor' \<and> AnnualDonationLimit donor' = AnnualDonationLimit donor
         \<and> Stats p' = (Stats p)\<lparr> TotalTransactions := TotalTransactions (Stats p) + 1,
                                  TotalDonations := TotalDonations (Stats p)
                                                     + (g - g * PlatformFee (Stats p)) \<rparr>
         \<and> platform_fee out = g * PlatformFee (Stats p)
         \<and> net_amount out = g - g * PlatformFee (Stats p)"
proof -
  obtain p' out where run:
    "ProcessDonation L now rnd p donorID ngoID g m = Some (Returns (p', Inr out))"
    using ProcessDonation_succeeds[OF assms] by blast
  from ProcessDonation_Inr[OF run] assms(2,3) obtain blk donor' rec where
    "NGOs p' = AList.update ngoID
              (ngo\<lparr> DonationBlockchain :=
                       (DonationBlockchain ngo)\<lparr> Chain := Chain (DonationBlockchain ngo) @ [blk] \<rparr>,
                    TotalDonationsReceived :=
                       TotalDonationsReceived ngo + (g - g * PlatformFee (Stats p)) \<rparr>) (NGOs p)"
    "Donors p' = AList.update donorID donor' (Donors p)"
    "DonationHistory donor' = DonationHistory donor @ [rec]"
    "dr_Amount rec = g - g * PlatformFee (Stats p)"
    "KYCVerified donor'" "AnnualDonationLimit donor' = AnnualDonationLimit donor"
    "Stats p' = (Stats p)\<lparr> TotalTransactions := TotalTransactions (Stats p) + 1,
                                  TotalDonations := TotalDonations (Stats p)
                                                     + (g - g * PlatformFee (Stats p)) \<rparr>"
    "platform_fee out = g * PlatformFee (Stats p)"
    "net_amount out = g - g * PlatformFee (Stats p)"
    by auto
  with run show ?thesis
    by (intro exI[of _ p'] exI[of _ out] exI[of _ blk] exI[of _ donor'] exI[of _ rec])
       (simp add: update_conv')
qed

lemma three_donations:
  assumes sha: "sha_ok L"
    and look: "map_of (Donors p) donorID = Some donor" "map_of (NGOs p) ngoID = Some ngo"
    and kyc: "KYCVerified donor" "kyc_Verified (ngo_KYCData ngo)"
    and donor: "DonationHistory donor = []" "105000 \<le> AnnualDonationLimit donor"
    and ngo: "TotalDonationsReceived ngo = 0" "Chain (DonationBlockchain ngo) \<noteq> []"
      "pow_solvable L (Difficulty (DonationBlockchain ngo))"
    and stats: "TotalDonations (Stats p) = 0" "PlatformFee (Stats p) = 1 / 100"
  shows "\<exists>p1 o1 p2 o2 p3 o3 ngo3.
           ProcessDonation L t1 r1 p donorID ngoID 50000 m1 = Some (Returns (p1, Inr o1))
         \<and> ProcessDonation L t2 r2 p1 donorID ngoID 25000 m2 = Some (Returns (p2, Inr o2))
         \<and> ProcessDonation L t3 r3 p2 donorID ngoID 30000 m3 = Some (Returns (p3, Inr o3))
         \<and> net_amount o1 = 49500 \<and> net_amount o2 = 24750 \<and> net_amount o3 = 29700
         \<and> platform_fee o1 + platform_fee o2 + platform_fee o3 = 1050
         \<and> map_of (NGOs p3) ngoID = Some ngo3
         \<and> TotalDonationsReceived ngo3 = 103950
         \<and> length (Chain (DonationBlockchain ngo3)) = length (Chain (DonationBlockchain ngo)) + 3
         \<and> ps_TotalDonations (GetPlatformStats t p3) = 103950
         \<and> PlatformFeeCollected (GetPlatformStats t p3) = 10395 / 10"
proof -
  have can1: "CanDonate (CheckDonationLimit L t1 donor 50000)"
    using donor by (simp add: CheckDonationLimit_def Let_def)
  from ProcessDonation_step[OF sha look kyc can1 ngo(2,3), of r1 m1]
  obtain p1 o1 ngo1 donor1 rec1 where s1:
    "ProcessDonation L t1 r1 p donorID ngoID 50000 m1 = Some (Returns (p1, Inr o1))"
    "map_of (NGOs p1) ngoID = Some ngo1" "map_of (Donors p1) donorID = Some donor1"
    "DonationHistory donor1 = [rec1]" "dr_Amount rec1 = 49500"
    "KYCVerified donor1" "AnnualDonationLimit donor1 = AnnualDonationLimit donor"
    "TotalDonations (Stats p1) = 49500" "PlatformFee (Stats p1) = 1 / 100"
    "platform_fee o1 = 500" "net_amount o1 = 49500"
    "TotalDonationsReceived ngo1 = 49500" "kyc_Verified (ngo_KYCData ngo1)"
    "Difficulty (DonationBlockchain ngo1) = Difficulty (DonationBlockchain ngo)"
    "length (Chain (DonationBlockchain ngo1)) = length (Chain (DonationBlockchain ngo)) + 1"
    using donor(1) ngo(1) stats kyc(2) by auto
  have ne1: "Chain (DonationBlockchain ngo1) \<noteq> []" using s1(15) by auto
  have can2: "CanDonate (CheckDonationLimit L t2 donor1 25000)"
    using donor s1 by (simp add: CheckDonationLimit_def Let_def)
  from ProcessDonation_step[OF sha s1(3,2) s1(6) s1(13) can2 ne1, of r2 m2] ngo(3)
  obtain p2 o2 ngo2 donor2 rec2 where s2:
    "ProcessDonation L t2 r2 p1 donorID ngoID 25000 m2 = Some (Returns (p2, Inr o2))"
    "map_of (NGOs p2) ngoID = Some ngo2" "map_of (Donors p2) donorID = Some donor2"
    "DonationHistory donor2 = [rec1, rec2]" "dr_Amount rec2 = 24750"
    "KYCVerified donor2" "AnnualDonationLimit donor2 = AnnualDonationLimit donor"
    "TotalDonations (Stats p2) = 74250" "PlatformFee (Stats p2) = 1 / 100"
    "platform_fee o2 = 250" "net_amount o2 = 24750"
    "TotalDonationsReceived ngo2 = 74250" "kyc_Verified (ngo_KYCData ngo2)"
    "Difficulty (DonationBlockchain ngo2) = Difficulty (DonationBlockchain ngo)"
    "length (Chain (DonationBlockchain ngo2)) = length (Chain (DonationBlockchain ngo)) + 2"
    using s1(4,5,7,8,9,12,13,14,15) by auto
  have ne2: "Chain (DonationBlockchain ngo2) \<noteq> []" using s2(15) by auto
  have can3: "CanDonate (CheckDonationLimit L t3 donor2 30000)"
    using donor s1(5) s2 by (simp add: CheckDonationLimit_def Let_def)
  from ProcessDonation_step[OF sha s2(3,2) s2(6) s2(13) can3 ne2, of r3 m3] ngo(3)
  obtain p3 o3 ngo3 where s3:
    "ProcessDonation L t3 r3 p2 donorID ngoID 30000 m3 = Some (Returns (p3, Inr o3))"
    "map_of (NGOs p3) ngoID = Some ngo3"
    "TotalDonations (Stats p3) = 103950" "PlatformFee (Stats p3) = 1 / 100"
    "platform_fee o3 = 300" "net_amount o3 = 29700"
    "TotalDonationsReceived ngo3 = 103950"
    "length (Chain (DonationBlockchain ngo3)) = length (Chain (DonationBlockchain ngo)) + 3"
    using s2(4,5,7,8,9,12,13,14,15) by auto
  have "ps_TotalDonations (GetPlatformStats t p3) = 103950"
    "PlatformFeeCollected (GetPlatformStats t p3) = 10395 / 10"
    by (simp_all add: GetPlatformStats_def Let_def s3)
  with s1 s2 s3 show ?thesis
    by (intro exI[of _ p1] exI[of _ o1] exI[of _ p2] exI[of _ o2] exI[of _ p3] exI[of _ o3]
          exI[of _ ngo3]) simp
qed

text \<open>
  Claim C4, amended. On a platform with fee rate 0.01 and nothing donated yet, with a
  KYC-verified NGO that has received nothing and a KYC-verified donor with no donation history and
  an annual limit of at least 105000, three donations of 50000, 25000 and 30000 through
  \<open>ProcessDonation\<close> succeed (SHA-256 digests being 32 bytes long and the mining loop
  having a solution); the nets are 49500, 24750 and 29700, the NGO's total of donations
  received is 103950, the three fees returned add up to 1050, and \<open>GetPlatformStats\<close>
  reports the fee collected as the fee rate times the total of the nets: 1039.5.
\<close>

theorem three_donations_totals:
  assumes sha: "sha_ok L"
    and look: "map_of (Donors p) donorID = Some donor" "map_of (NGOs p) ngoID = Some ngo"
    and kyc: "KYCVerified donor" "kyc_Verified (ngo_KYCData ngo)"
    and donor: "DonationHistory donor = []" "105000 \<le> AnnualDonationLimit donor"
    and ngo: "TotalDonationsReceived ngo = 0" "Chain (DonationBlockchain ngo) \<noteq> []"
      "pow_solvable L (Difficulty (DonationBlockchain ngo))"
    and stats: "TotalDonations (Stats p) = 0" "PlatformFee (Stats p) = 1 / 100"
  shows "\<exists>p1 o1 p2 o2 p3 o3 ngo3.
           ProcessDonation L t1 r1 p donorID ngoID 50000 m1 = Some (Returns (p1, Inr o1))
         \<and> ProcessDonation L t2 r2 p1 donorID ngoID 25000 m2 = Some (Returns (p2, Inr o2))
         \<and> ProcessDonation L t3 r3 p2 donorID ngoID 30000 m3 = Some (Returns (p3, Inr o3))
         \<and> net_amount o1 = 49500 \<and> net_amount o2 = 24750 \<and> net_amount o3 = 29700
         \<and> platform_fee o1 + platform_fee o2 + platform_fee o3 = 1050
         \<and> map_of (NGOs p3) ngoID = Some ngo3
         \<and> TotalDonationsReceived ngo3 = 103950
         \<and> length (Chain (DonationBlockchain ngo3)) = length (Chain (DonationBlockchain ngo)) + 3
         \<and> ps_TotalDonations (GetPlatformStats t p3) = 103950
         \<and> PlatformFeeCollected (GetPlatformStats t p3) = 10395 / 10"
  using three_donations[OF assms] .

theorem three_donations_totals_witness:
  "\<exists>p1 o1 p2 o2 p3 o3 ngo3.
      ProcessDonation lib_zero ex_now ex_draws ex_platform ''DONOR001'' ''NGO001'' 50000 ''UPI''
        = Some (Returns (p1, Inr o1))
    \<and> ProcessDonation lib_zero ex_now ex_draws p1 ''DONOR001'' ''NGO001'' 25000 ''UPI''
        = Some (Returns (p2, Inr o2))
    \<and> ProcessDonation lib_zero ex_now ex_draws p2 ''DONOR001'' ''NGO001'' 30000 ''UPI''
        = Some (Returns (p3, Inr o3))
    \<and> platform_fee o1 + platform_fee o2 + platform_fee o3 = 1050
    \<and> map_of (NGOs p3) ''NGO001'' = Some ngo3
    \<and> TotalDonationsReceived ngo3 = 103950
    \<and> length (Chain (DonationBlockchain ngo3)) = 4
    \<and> PlatformFeeCollected (GetPlatformStats ex_now p3) = 10395 / 10"
proof -
  have look: "map_of (Donors ex_platform) ''DONOR001'' = Some ex_donor"
      "map_of (NGOs ex_platform) ''NGO001'' = Some ex_ngo"
    and stats: "TotalDonations (Stats ex_platform) = 0" "PlatformFee (Stats ex_platform) = 1 / 100"
    by (simp_all add: ex_platform_eq)
  have pow: "pow_solvable lib_zero (Difficulty (DonationBlockchain ex_ngo))"
    by (simp add: pow_solvable_lib_zero)
  have lim: "105000 \<le> AnnualDonationLimit ex_donor" by simp
  from three_donations_totals[OF sha_ok_lib_zero look ex_donor_fields(1) ex_ngo_fields(1)
      ex_donor_fields(2) lim ex_ngo_fields(4,2) pow stats,
      of ex_now ex_draws "''UPI''" ex_now ex_draws "''UPI''" ex_now ex_draws "''UPI''" ex_now]
  show ?thesis by (simp only: ex_ngo_fields(5)) auto
qed

text \<open>
  The claim's figure for the fee collected, 1050, is the sum of the fees on the gross amounts.
  \<open>GetPlatformStats\<close> multiplies the running total of the net amounts by the fee rate
  instead, so after the three donations on the example platform it does not report 1050.
\<close>

theorem three_donations_fee_collected_is_not_1050:
  "\<exists>p1 o1 p2 o2 p3 o3.
      ProcessDonation lib_zero ex_now ex_draws ex_platform ''DONOR001'' ''NGO001'' 50000 ''UPI''
        = Some (Returns (p1, Inr o1))
    \<and> ProcessDonation lib_zero ex_now ex_draws p1 ''DONOR001'' ''NGO001'' 25000 ''UPI''
        = Some (Returns (p2, Inr o2))
    \<and> ProcessDonation lib_zero ex_now ex_draws p2 ''DONOR001'' ''NGO001'' 30000 ''UPI''
        = Some (Returns (p3, Inr o3))
    \<and> PlatformFeeCollected (GetPlatformStats ex_now p3) \<noteq> 1050"
proof -
  have look: "map_of (Donors ex_platform) ''DONOR001'' = Some ex_donor"
      "map_of (NGOs ex_platform) ''NGO001'' = Some ex_ngo"
    and stats: "TotalDonations (Stats ex_platform) = 0" "PlatformFee (Stats ex_platform) = 1 / 100"
    by (simp_all add: ex_platform_eq)
  have pow: "pow_solvable lib_zero (Difficulty (DonationBlockchain ex_ngo))"
    by (simp add: pow_solvable_lib_zero)
  have lim: "105000 \<le> AnnualDonationLimit ex_donor" by simp
  from three_donations[OF sha_ok_lib_zero look ex_donor_fields(1) ex_ngo_fields(1)
      ex_donor_fields(2) lim ex_ngo_fields(4,2) pow stats,
      of ex_now ex_draws "''UPI''" ex_now ex_draws "''UPI''" ex_now ex_draws "''UPI''" ex_now]
  obtain p1 o1 p2 o2 p3 o3 where
    "ProcessDonation lib_zero ex_now ex_draws ex_platform ''DONOR001'' ''NGO001'' 50000 ''UPI''
        = Some (Returns (p1, Inr o1))"
    "ProcessDonation lib_zero ex_now ex_draws p1 ''DONOR001'' ''NGO001'' 25000 ''UPI''
        = Some (Returns (p2, Inr o2))"
    "ProcessDonation lib_zero ex_now ex_draws p2 ''DONOR001'' ''NGO001'' 30000 ''UPI''
        = Some (Returns (p3, Inr o3))"
    "PlatformFeeCollected (GetPlatformStats ex_now p3) = 10395 / 10"
    by blast
  then show ?thesis by (intro exI[of _ p1] exI[of _ o1] exI[of _ p2] exI[of _ o2] exI[of _ p3] exI[of _ o3]) simp
qed

end
